theory Spec2Isabelle
  imports Main "HOL-Library.Word"
begin

section \<open>The function operator of the kube controller (nucliofunction.go)\<close>

text \<open>
  A shallow embedding of \<^verbatim>\<open>pkg/platform/kube/controller/nucliofunction.go\<close>.
  The handler \<^verbatim>\<open>CreateOrUpdate\<close> mutates the function object it is handed and talks to
  three collaborators: the function resources client, the nuclio client set (the object
  store) and the logger. The embedding threads a state through the handler: the function
  object behind the pointer, the trace of every call that left the handler (with its
  result) and the number of clock readings taken so far. A Go panic is a result of its own.
\<close>

subsection \<open>Data\<close>

text \<open>
  \<^verbatim>\<open>functionconfig.FunctionState\<close> and \<^verbatim>\<open>scaler_types.ScaleEvent\<close> are string types in Go.
  The named constants are constructors; every other string, the zero value \<^verbatim>\<open>""\<close>
  among them, is kept under the last constructor.
\<close>

datatype FunctionState =
    FunctionStateWaitingForResourceConfiguration
  | FunctionStateWaitingForScaleResourcesFromZero
  | FunctionStateWaitingForScaleResourcesToZero
  | FunctionStateReady
  | FunctionStateScaledToZero
  | FunctionStateImported
  | FunctionStateError
  | FunctionStateUnhealthy
  | FunctionStateBuilding
  | FunctionStateOther string

datatype ScaleEvent =
    ScaleToZeroCompletedScaleEvent
  | ScaleFromZeroCompletedScaleEvent
  | ResourceUpdatedScaleEvent
  | ScaleEventOther string

text \<open>
  Errors of \<^verbatim>\<open>github.com/nuclio/errors\<close>: \<^verbatim>\<open>errors.New(message)\<close> and
  \<^verbatim>\<open>errors.Wrap(cause, message)\<close>. An error handed back by a collaborator is any value
  of this type.
\<close>

datatype error = New string | Wrap error string

text \<open>An instant is a number of nanoseconds; a \<^verbatim>\<open>*time.Time\<close> is an optional instant.\<close>

type_synonym Time = int

record ScaleToZeroStatus =
  LastScaleEvent :: ScaleEvent
  LastScaleEventTime :: "Time option"

text \<open>
  \<^verbatim>\<open>functionconfig.Status\<close>, with the fields the operator and its comments name.
\<close>

record functionconfig_Status =
  State :: FunctionState
  Message :: string
  Logs :: "string list"
  ScaleToZero :: "ScaleToZeroStatus option"
  HTTPPort :: int

text \<open>
  \<^verbatim>\<open>nuclioio.NuclioFunction\<close>: the object meta data the operator reads (name, namespace,
  annotations), the one field of the spec it reads and the status it owns.
\<close>

record NuclioFunction =
  Name :: string
  Namespace :: string
  Annotations :: "string \<rightharpoonup> string"
  Spec_ReadinessTimeoutSeconds :: int
  Status :: functionconfig_Status

text \<open>
  The handler receives a \<^verbatim>\<open>runtime.Object\<close>: a pointer to a function (\<open>None\<close> is the
  \<^verbatim>\<open>nil\<close> pointer) or an object of another kind, of which only a description is kept.
\<close>

datatype runtime_Object = FunctionObject "NuclioFunction option" | OtherObject string

text \<open>
  A port of the child service (\<^verbatim>\<open>port.Name\<close>, \<^verbatim>\<open>port.NodePort\<close> of type \<^verbatim>\<open>int32\<close>) and the
  service with \<^verbatim>\<open>service.Spec.Ports\<close>.
\<close>

record ServicePort =
  port_Name :: string
  port_NodePort :: "32 word"

record Service =
  Spec_Ports :: "ServicePort list"

text \<open>
  What a call to a collaborator does: it returns its value, returns an error, or panics
  with a message.
\<close>

datatype 'a call = Ok 'a | Err error | Panic string

text \<open>
  \<^verbatim>\<open>functionres.Resources\<close> is used through \<^verbatim>\<open>Service()\<close> alone, which returns a
  service pointer (possibly \<^verbatim>\<open>nil\<close>) and an error.
\<close>

record Resources =
  Resources_Service :: "Service option call"

text \<open>A \<^verbatim>\<open>context.Context\<close>, as far as its deadline goes.\<close>

record Context =
  Deadline :: "Time option"

datatype level = Debug | Info | Warn | Error_level

datatype event =
    Log level string
  | ResCreateOrUpdate "Resources call"
  | ResWaitAvailable Context "unit call"
  | ResService "Service option call"
  | StoreUpdate NuclioFunction "error option"
  | StoreUpdatePanic NuclioFunction string
  | CancelWait

text \<open>
  The operator: \<^verbatim>\<open>fo.imagePullSecrets\<close>, the two operations of \<^verbatim>\<open>fo.functionresClient\<close>
  that the handler calls, and \<^verbatim>\<open>Update\<close> of \<^verbatim>\<open>fo.controller.nuclioClientSet\<close>, which
  returns the store's error (\<^verbatim>\<open>nil\<close> is \<open>None\<close>). The operations of the resources
  client may panic. The logger returns, and so does the store of this record; the handler
  over a store that may panic comes after the handler.
\<close>

record functionOperator =
  imagePullSecrets :: string
  functionresClient_CreateOrUpdate :: "Context \<Rightarrow> NuclioFunction \<Rightarrow> string \<Rightarrow> Resources call"
  functionresClient_WaitAvailable :: "Context \<Rightarrow> string \<Rightarrow> string \<Rightarrow> unit call"
  nuclioClientSet_Update :: "NuclioFunction \<Rightarrow> error option"

text \<open>
  What the handler takes from outside the repository and from declarations that are not
  part of this file: \<^verbatim>\<open>validation.IsQualifiedName\<close> of the Kubernetes library, the constant
  \<^verbatim>\<open>abstract.DefaultReadinessTimeoutSeconds\<close>, and the wall clock, whose \<open>k\<close>-th reading
  is \<open>Now k\<close>.
\<close>

record externals =
  IsQualifiedName :: "string \<Rightarrow> string list"
  DefaultReadinessTimeoutSeconds :: int
  Now :: "nat \<Rightarrow> Time"

text \<open>
  The result of a Go function: it returns, or it is left by a panic that travels up
  the stack.
\<close>

datatype 'a result = Return 'a | Panicking string

record state =
  fn :: "NuclioFunction option"
  trace :: "event list"
  clock :: nat

definition emit :: "event \<Rightarrow> state \<Rightarrow> state" where
  "emit e s = s\<lparr>trace := trace s @ [e]\<rparr>"

definition nil_dereference :: string where
  "nil_dereference = ''invalid memory address or nil pointer dereference''"

subsection \<open>Helpers from other packages\<close>

text \<open>The zero value of \<^verbatim>\<open>functionconfig.Status\<close>, which a composite literal starts from.\<close>

definition Status_zero :: functionconfig_Status where
  "Status_zero = \<lparr>State = FunctionStateOther [], Message = [], Logs = [],
     ScaleToZero = None, HTTPPort = 0\<rparr>"

text \<open>
  Modelled from the spec: \<^verbatim>\<open>functionconfig.FunctionStateInSlice\<close> is not part of this file;
  the decision table writes the test as membership of the state in the listed states.
\<close>

definition FunctionStateInSlice :: "FunctionState \<Rightarrow> FunctionState list \<Rightarrow> bool" where
  "FunctionStateInSlice st states = (st \<in> set states)"

text \<open>
  Modelled from the spec: \<^verbatim>\<open>functionconfig.ShouldSkipDeploy\<close> is not part of this file. The
  data model has a boolean-valued \<^verbatim>\<open>skip-deploy\<close> marker among the annotations, and
  "presence + truthy value" means that no resources are materialised. A value is truthy
  when Go's \<^verbatim>\<open>strconv.ParseBool\<close> reads it as true.
\<close>

definition truthy :: "string \<Rightarrow> bool" where
  "truthy v = (v \<in> set [''1'', ''t'', ''T'', ''TRUE'', ''true'', ''True''])"

definition ShouldSkipDeploy :: "(string \<rightharpoonup> string) \<Rightarrow> bool" where
  "ShouldSkipDeploy annotations =
     (case annotations ''skip-deploy'' of None \<Rightarrow> False | Some v \<Rightarrow> truthy v)"

text \<open>
  Modelled from the spec: \<^verbatim>\<open>functionres.ContainerHTTPPortName\<close> is not part of this file; the
  constants at the boundary give it as \<^verbatim>\<open>"http"\<close>.
\<close>

definition ContainerHTTPPortName :: string where
  "ContainerHTTPPortName = ''http''"

text \<open>
  Modelled from the spec: \<^verbatim>\<open>errors.GetErrorStackString\<close> is not part of this file. The
  status writer stores \<^verbatim>\<open>stack(err, depth)\<close>, an error stack of at most \<open>depth\<close> frames:
  one frame for each error of the chain, the cause first, each on a line of its own.
\<close>

fun error_chain :: "error \<Rightarrow> string list" where
  "error_chain (New m) = [m]"
| "error_chain (Wrap cause m) = error_chain cause @ [m]"

definition GetErrorStack :: "error \<Rightarrow> nat \<Rightarrow> string list" where
  "GetErrorStack err depth = take depth (error_chain err)"

definition GetErrorStackString :: "error \<Rightarrow> nat \<Rightarrow> string" where
  "GetErrorStackString err depth = concat (map (\<lambda>m. CHR 0x0A # m) (GetErrorStack err depth))"

text \<open>\<^verbatim>\<open>strings.Join\<close> of the Go standard library.\<close>

fun Join :: "string list \<Rightarrow> string \<Rightarrow> string" where
  "Join [] sep = []"
| "Join [x] sep = x"
| "Join (x # y # ys) sep = x @ sep @ Join (y # ys) sep"

text \<open>
  \<^verbatim>\<open>time.Duration\<close> is an \<^verbatim>\<open>int64\<close> of nanoseconds: the conversion and the product with
  \<^verbatim>\<open>time.Second\<close> wrap around at 64 bits.
\<close>

definition wrap64 :: "int \<Rightarrow> int" where
  "wrap64 n = sint (word_of_int n :: 64 word)"

definition Second :: int where
  "Second = 1000000000"

definition Duration_seconds :: "int \<Rightarrow> int" where
  "Duration_seconds n = wrap64 (wrap64 n * Second)"

text \<open>
  \<^verbatim>\<open>context.WithDeadline\<close> of the Go standard library: the child keeps the parent's
  deadline when that one is earlier, and has the given one otherwise.
\<close>

definition WithDeadline :: "Context \<Rightarrow> Time \<Rightarrow> Context" where
  "WithDeadline parent d =
     (case Deadline parent of
        Some cur \<Rightarrow> if cur < d then parent else parent\<lparr>Deadline := Some d\<rparr>
      | None \<Rightarrow> parent\<lparr>Deadline := Some d\<rparr>)"

subsection \<open>The status writer\<close>

text \<open>
  \<^verbatim>\<open>setFunctionStatus\<close> (lines 272-283). Its first statement reads \<^verbatim>\<open>function.Name\<close> for
  the log line, which panics on a \<^verbatim>\<open>nil\<close> pointer. The status of the object is
  overwritten before the store is asked to update it.
\<close>

definition setFunctionStatus ::
  "functionOperator \<Rightarrow> functionconfig_Status \<Rightarrow> state \<Rightarrow> error option result \<times> state" where
  "setFunctionStatus fo status s =
     (case fn s of
        None \<Rightarrow> (Panicking nil_dereference, s)
      | Some function \<Rightarrow>
          let s1 = emit (Log Debug ''Setting function state'') s;
              function' = function\<lparr>Status := status\<rparr>;
              err = nuclioClientSet_Update fo function'
          in (Return err, emit (StoreUpdate function' err) (s1\<lparr>fn := Some function'\<rparr>)))"

text \<open>
  The status that \<^verbatim>\<open>setFunctionError\<close> writes (lines 261-264): the error state and the
  stack of the error to a depth of 10; every other field has its zero value.
\<close>

definition error_status :: "FunctionState \<Rightarrow> error \<Rightarrow> functionconfig_Status" where
  "error_status functionErrorState err =
     Status_zero\<lparr>State := functionErrorState, Message := GetErrorStackString err 10\<rparr>"

text \<open>
  \<^verbatim>\<open>setFunctionError\<close> (lines 251-270). The arguments of the warning are evaluated first,
  \<^verbatim>\<open>function.Name\<close> among them. A failed status write is logged and the error given is
  returned whatever the write did.
\<close>

definition setFunctionError ::
  "functionOperator \<Rightarrow> FunctionState \<Rightarrow> error \<Rightarrow> state \<Rightarrow> error option result \<times> state" where
  "setFunctionError fo functionErrorState err s =
     (case fn s of
        None \<Rightarrow> (Panicking nil_dereference, s)
      | Some function \<Rightarrow>
          (case setFunctionStatus fo (error_status functionErrorState err)
                  (emit (Log Warn ''Setting function error'') s) of
             (Panicking p, s') \<Rightarrow> (Panicking p, s')
           | (Return setStatusErr, s') \<Rightarrow>
               (Return (Some err),
                if setStatusErr \<noteq> None
                then emit (Log Warn ''Failed to update function on error'') s' else s')))"

subsection \<open>Scale events and the HTTP port\<close>

text \<open>
  \<^verbatim>\<open>setFunctionScaleToZeroStatus\<close> (lines 231-243) reads the clock, stamps the event on
  the status it is given and returns \<^verbatim>\<open>nil\<close>.
\<close>

definition setFunctionScaleToZeroStatus ::
  "externals \<Rightarrow> functionconfig_Status \<Rightarrow> ScaleEvent \<Rightarrow> state
     \<Rightarrow> error option \<times> functionconfig_Status \<times> state" where
  "setFunctionScaleToZeroStatus x functionStatus scaleToZeroEvent s =
     (let s1 = emit (Log Debug ''Setting scale to zero status'') s;
          now = Now x (clock s1);
          s2 = s1\<lparr>clock := Suc (clock s1)\<rparr>
      in (None,
          functionStatus\<lparr>ScaleToZero :=
            Some \<lparr>LastScaleEvent = scaleToZeroEvent, LastScaleEventTime = Some now\<rparr>\<rparr>,
          s2))"

text \<open>
  The loop of \<^verbatim>\<open>getFunctionHTTPPort\<close> (lines 305-310): the first port with the HTTP name
  sets the result and breaks; \<^verbatim>\<open>int(port.NodePort)\<close> reads the \<^verbatim>\<open>int32\<close> with its sign.
\<close>

fun scanPorts :: "ServicePort list \<Rightarrow> int \<Rightarrow> int" where
  "scanPorts [] httpPort = httpPort"
| "scanPorts (port # ports) httpPort =
     (if port_Name port = ContainerHTTPPortName then sint (port_NodePort port)
      else scanPorts ports httpPort)"

text \<open>
  Lines 304-312 of \<^verbatim>\<open>getFunctionHTTPPort\<close>: the port stays at its zero value when the
  service pointer is \<^verbatim>\<open>nil\<close> or the service has no ports.
\<close>

definition httpPort_of_service :: "Service option \<Rightarrow> int" where
  "httpPort_of_service service =
     (case service of
        None \<Rightarrow> 0
      | Some svc \<Rightarrow>
          if length (Spec_Ports svc) \<noteq> 0 then scanPorts (Spec_Ports svc) 0 else 0)"

text \<open>\<^verbatim>\<open>getFunctionHTTPPort\<close> (lines 296-313).\<close>

definition getFunctionHTTPPort :: "Resources \<Rightarrow> state \<Rightarrow> (error + int) result \<times> state" where
  "getFunctionHTTPPort functionResources s =
     (let s1 = emit (ResService (Resources_Service functionResources)) s
      in case Resources_Service functionResources of
           Panic p \<Rightarrow> (Panicking p, s1)
         | Err err \<Rightarrow> (Return (Inl (Wrap err ''Failed to get function service'')), s1)
         | Ok service \<Rightarrow> (Return (Inr (httpPort_of_service service)), s1))"

subsection \<open>The handler\<close>

definition waitingStates :: "FunctionState list" where
  "waitingStates =
     [FunctionStateWaitingForResourceConfiguration,
      FunctionStateWaitingForScaleResourcesFromZero,
      FunctionStateWaitingForScaleResourcesToZero]"

definition statesToRespond :: "FunctionState list" where
  "statesToRespond =
     [FunctionStateWaitingForResourceConfiguration,
      FunctionStateWaitingForScaleResourcesFromZero,
      FunctionStateWaitingForScaleResourcesToZero,
      FunctionStateReady,
      FunctionStateScaledToZero]"

text \<open>
  The \<^verbatim>\<open>switch\<close> of lines 187-197. The two variables start at their zero values and
  keep them when no case matches.
\<close>

definition scaleEvent_finalState :: "FunctionState \<Rightarrow> ScaleEvent \<times> FunctionState" where
  "scaleEvent_finalState st =
     (case st of
        FunctionStateWaitingForScaleResourcesToZero \<Rightarrow>
          (ScaleToZeroCompletedScaleEvent, FunctionStateScaledToZero)
      | FunctionStateWaitingForScaleResourcesFromZero \<Rightarrow>
          (ScaleFromZeroCompletedScaleEvent, FunctionStateReady)
      | FunctionStateWaitingForResourceConfiguration \<Rightarrow>
          (ResourceUpdatedScaleEvent, FunctionStateReady)
      | _ \<Rightarrow> (ScaleEventOther [], FunctionStateOther []))"

text \<open>
  Lines 177-219 of \<^verbatim>\<open>CreateOrUpdate\<close>: what follows a successful wait. A failure to
  get the HTTP port is returned wrapped, with no call to the status writer.
\<close>

definition finalize ::
  "externals \<Rightarrow> functionOperator \<Rightarrow> Resources \<Rightarrow> state \<Rightarrow> error option result \<times> state" where
  "finalize x fo resources s =
     (case fn s of
        None \<Rightarrow> (Panicking nil_dereference, s)
      | Some function \<Rightarrow>
          if FunctionStateInSlice (State (Status function)) waitingStates then
            (case scaleEvent_finalState (State (Status function)) of
               (scaleEvent, finalState) \<Rightarrow>
                 (case getFunctionHTTPPort resources s of
                    (Panicking p, s1) \<Rightarrow> (Panicking p, s1)
                  | (Return (Inl err), s1) \<Rightarrow>
                      (Return (Some (Wrap err ''Failed to get function http port'')), s1)
                  | (Return (Inr httpPort), s1) \<Rightarrow>
                      (case setFunctionScaleToZeroStatus x
                              (Status_zero\<lparr>State := finalState, HTTPPort := httpPort\<rparr>)
                              scaleEvent s1 of
                         (Some err, functionStatus, s2) \<Rightarrow>
                           (Return (Some (Wrap err
                              ''Failed setting function scale to zero status'')), s2)
                       | (None, functionStatus, s2) \<Rightarrow>
                           setFunctionStatus fo functionStatus s2)))
          else (Return None, s))"

text \<open>Lines 170-175: the wait on the bounded context, then the rest.\<close>

definition awaitResources ::
  "externals \<Rightarrow> functionOperator \<Rightarrow> Context \<Rightarrow> Resources \<Rightarrow> state
     \<Rightarrow> error option result \<times> state" where
  "awaitResources x fo waitContext resources s =
     (case fn s of
        None \<Rightarrow> (Panicking nil_dereference, s)
      | Some function \<Rightarrow>
          let waited = functionresClient_WaitAvailable fo waitContext
                         (Namespace function) (Name function);
              s1 = emit (ResWaitAvailable waitContext waited) s
          in case waited of
               Panic p \<Rightarrow> (Panicking p, s1)
             | Err err \<Rightarrow>
                 setFunctionError fo FunctionStateUnhealthy
                   (Wrap err ''Failed to wait for function resources to be available'') s1
             | Ok u \<Rightarrow> finalize x fo resources s1)"

text \<open>
  Lines 162-165: the readiness timeout of the spec, or the default when it is \<open>0\<close>.
\<close>

definition readinessTimeout :: "externals \<Rightarrow> NuclioFunction \<Rightarrow> int" where
  "readinessTimeout x function =
     (if Spec_ReadinessTimeoutSeconds function = 0 then DefaultReadinessTimeoutSeconds x
      else Spec_ReadinessTimeoutSeconds function)"

text \<open>
  Line 167: the context of the wait, derived from the incoming context with the deadline
  \<^verbatim>\<open>time.Now().Add(time.Duration(readinessTimeout)*time.Second)\<close>.
\<close>

definition waitContext :: "externals \<Rightarrow> Context \<Rightarrow> NuclioFunction \<Rightarrow> Time \<Rightarrow> Context" where
  "waitContext x ctx function now =
     WithDeadline ctx (now + Duration_seconds (readinessTimeout x function))"

text \<open>
  Lines 150-168: the resources are created or updated and the bounded context is derived.
  The deferred \<^verbatim>\<open>cancel()\<close> runs when the handler is left after that point, by a return
  or by a panic.
\<close>

definition provision ::
  "externals \<Rightarrow> functionOperator \<Rightarrow> Context \<Rightarrow> state \<Rightarrow> error option result \<times> state" where
  "provision x fo ctx s =
     (case fn s of
        None \<Rightarrow> (Panicking nil_dereference, s)
      | Some function \<Rightarrow>
          let created = functionresClient_CreateOrUpdate fo ctx function (imagePullSecrets fo);
              s1 = emit (ResCreateOrUpdate created)
                     (emit (Log Debug ''Ensuring function resources'') s)
          in case created of
               Panic p \<Rightarrow> (Panicking p, s1)
             | Err err \<Rightarrow>
                 setFunctionError fo FunctionStateError
                   (Wrap err ''Failed to create/update function'') s1
             | Ok resources \<Rightarrow>
                 (case awaitResources x fo (waitContext x ctx function (Now x (clock s1)))
                         resources (s1\<lparr>clock := Suc (clock s1)\<rparr>) of
                    (r, s2) \<Rightarrow> (r, emit CancelWait s2)))"

text \<open>Lines 108-148: name validation, the states responded to, the skip-deploy annotation.\<close>

definition CreateOrUpdate_body ::
  "externals \<Rightarrow> functionOperator \<Rightarrow> Context \<Rightarrow> state \<Rightarrow> error option result \<times> state" where
  "CreateOrUpdate_body x fo ctx s =
     (case fn s of
        None \<Rightarrow> (Panicking nil_dereference, s)
      | Some function \<Rightarrow>
          let errorMessages = IsQualifiedName x (Name function)
          in if length errorMessages \<noteq> 0 then
               (Return (Some (New
                  (''Function name doesn't conform to k8s naming convention. Errors: ''
                   @ Join errorMessages '', ''))), s)
             else if \<not> FunctionStateInSlice (State (Status function)) statesToRespond then
               (Return None,
                emit (Log Debug
                  ''NuclioFunction is not waiting for resource creation or ready, skipping create/update'') s)
             else if ShouldSkipDeploy (Annotations function) then
               setFunctionStatus fo (Status_zero\<lparr>State := FunctionStateImported\<rparr>)
                 (emit (Log Info ''Skipping function deploy'') s)
             else provision x fo ctx s)"

text \<open>
  Modelled from the spec: \<^verbatim>\<open>common.CatchAndLogPanicWithOptions\<close> is not part of this file.
  It is the panic-recovery boundary of the handler: a panic is captured and logged, the
  custom handler is run on the error made of it, and the panic is not raised again.
  The handler has then no result to return but the zero value \<^verbatim>\<open>nil\<close>. A panic of the
  custom handler itself is past the boundary.
\<close>

definition CatchAndLogPanicWithOptions ::
  "string \<Rightarrow> (error \<Rightarrow> state \<Rightarrow> error option result \<times> state)
     \<Rightarrow> error option result \<times> state \<Rightarrow> error option result \<times> state" where
  "CatchAndLogPanicWithOptions actionName CustomHandler outcome =
     (case outcome of
        (Return r, s) \<Rightarrow> (Return r, s)
      | (Panicking p, s) \<Rightarrow>
          (case CustomHandler (New p) (emit (Log Error_level actionName) s) of
             (Panicking q, s') \<Rightarrow> (Panicking q, s')
           | (Return r, s') \<Rightarrow> (Return None, s')))"

text \<open>
  \<^verbatim>\<open>CreateOrUpdate\<close> (lines 86-220). The type assertion comes first, and
  \<^verbatim>\<open>setFunctionError\<close> is called on the \<^verbatim>\<open>nil\<close> pointer when it fails, before the
  recovery boundary is deferred.
\<close>

definition initial :: "NuclioFunction option \<Rightarrow> state" where
  "initial function = \<lparr>fn = function, trace = [], clock = 0\<rparr>"

definition CreateOrUpdate ::
  "externals \<Rightarrow> functionOperator \<Rightarrow> Context \<Rightarrow> runtime_Object \<Rightarrow> error option result \<times> state" where
  "CreateOrUpdate x fo ctx object =
     (case object of
        OtherObject d \<Rightarrow>
          setFunctionError fo FunctionStateError
            (New ''Received unexpected object, expected function'') (initial None)
      | FunctionObject function \<Rightarrow>
          CatchAndLogPanicWithOptions ''nucliofunction.CreateOrUpdate''
            (\<lambda>panicError. setFunctionError fo FunctionStateError
               (Wrap panicError ''Failed to create/update function''))
            (CreateOrUpdate_body x fo ctx (initial function)))"

subsection \<open>The handler over a store that may panic\<close>

text \<open>
  The operator above takes \<^verbatim>\<open>Update\<close> to return. Line 281 is a call like the others, and
  it may panic as well, on a \<^verbatim>\<open>nil\<close> controller or client set for one. What a panic of the
  store does to the handler, and to the recovery boundary that writes a status itself,
  is read off a second embedding of the same lines, in which the store is given apart
  from the operator as an \<^verbatim>\<open>Update\<close> that returns \<^verbatim>\<open>nil\<close>, returns an error or panics.
  The field \<open>nuclioClientSet_Update\<close> of the operator is not consulted there. The store
  of an operator, as a store of this kind, never panics.
\<close>

definition returning_store :: "functionOperator \<Rightarrow> NuclioFunction \<Rightarrow> unit call" where
  "returning_store fo f =
     (case nuclioClientSet_Update fo f of None \<Rightarrow> Ok () | Some err \<Rightarrow> Err err)"

definition call_returns :: "'a call \<Rightarrow> bool" where
  "call_returns c = (case c of Panic p \<Rightarrow> False | Ok v \<Rightarrow> True | Err err \<Rightarrow> True)"

text \<open>
  \<^verbatim>\<open>setFunctionStatus\<close> (lines 272-283). The status of the object is assigned at line 278,
  before the call of line 281, so that a panic of the store finds the new status in place.
\<close>

definition setFunctionStatus_store ::
  "(NuclioFunction \<Rightarrow> unit call) \<Rightarrow> functionconfig_Status \<Rightarrow> state
     \<Rightarrow> error option result \<times> state" where
  "setFunctionStatus_store store status s =
     (case fn s of
        None \<Rightarrow> (Panicking nil_dereference, s)
      | Some function \<Rightarrow>
          let s1 = emit (Log Debug ''Setting function state'') s;
              function' = function\<lparr>Status := status\<rparr>;
              s2 = s1\<lparr>fn := Some function'\<rparr>
          in case store function' of
               Panic p \<Rightarrow> (Panicking p, emit (StoreUpdatePanic function' p) s2)
             | Err err \<Rightarrow> (Return (Some err), emit (StoreUpdate function' (Some err)) s2)
             | Ok u \<Rightarrow> (Return None, emit (StoreUpdate function' None) s2))"

text \<open>\<^verbatim>\<open>setFunctionError\<close> (lines 251-270).\<close>

definition setFunctionError_store ::
  "(NuclioFunction \<Rightarrow> unit call) \<Rightarrow> FunctionState \<Rightarrow> error \<Rightarrow> state
     \<Rightarrow> error option result \<times> state" where
  "setFunctionError_store store functionErrorState err s =
     (case fn s of
        None \<Rightarrow> (Panicking nil_dereference, s)
      | Some function \<Rightarrow>
          (case setFunctionStatus_store store (error_status functionErrorState err)
                  (emit (Log Warn ''Setting function error'') s) of
             (Panicking p, s') \<Rightarrow> (Panicking p, s')
           | (Return setStatusErr, s') \<Rightarrow>
               (Return (Some err),
                if setStatusErr \<noteq> None
                then emit (Log Warn ''Failed to update function on error'') s' else s')))"

text \<open>Lines 177-219 of \<^verbatim>\<open>CreateOrUpdate\<close>.\<close>

definition finalize_store ::
  "externals \<Rightarrow> (NuclioFunction \<Rightarrow> unit call) \<Rightarrow> Resources \<Rightarrow> state
     \<Rightarrow> error option result \<times> state" where
  "finalize_store x store resources s =
     (case fn s of
        None \<Rightarrow> (Panicking nil_dereference, s)
      | Some function \<Rightarrow>
          if FunctionStateInSlice (State (Status function)) waitingStates then
            (case scaleEvent_finalState (State (Status function)) of
               (scaleEvent, finalState) \<Rightarrow>
                 (case getFunctionHTTPPort resources s of
                    (Panicking p, s1) \<Rightarrow> (Panicking p, s1)
                  | (Return (Inl err), s1) \<Rightarrow>
                      (Return (Some (Wrap err ''Failed to get function http port'')), s1)
                  | (Return (Inr httpPort), s1) \<Rightarrow>
                      (case setFunctionScaleToZeroStatus x
                              (Status_zero\<lparr>State := finalState, HTTPPort := httpPort\<rparr>)
                              scaleEvent s1 of
                         (Some err, functionStatus, s2) \<Rightarrow>
                           (Return (Some (Wrap err
                              ''Failed setting function scale to zero status'')), s2)
                       | (None, functionStatus, s2) \<Rightarrow>
                           setFunctionStatus_store store functionStatus s2)))
          else (Return None, s))"

text \<open>Lines 170-175.\<close>

definition awaitResources_store ::
  "externals \<Rightarrow> functionOperator \<Rightarrow> (NuclioFunction \<Rightarrow> unit call) \<Rightarrow> Context \<Rightarrow> Resources
     \<Rightarrow> state \<Rightarrow> error option result \<times> state" where
  "awaitResources_store x fo store boundedCtx resources s =
     (case fn s of
        None \<Rightarrow> (Panicking nil_dereference, s)
      | Some function \<Rightarrow>
          let waited = functionresClient_WaitAvailable fo boundedCtx
                         (Namespace function) (Name function);
              s1 = emit (ResWaitAvailable boundedCtx waited) s
          in case waited of
               Panic p \<Rightarrow> (Panicking p, s1)
             | Err err \<Rightarrow>
                 setFunctionError_store store FunctionStateUnhealthy
                   (Wrap err ''Failed to wait for function resources to be available'') s1
             | Ok u \<Rightarrow> finalize_store x store resources s1)"

text \<open>Lines 150-168, with the deferred \<^verbatim>\<open>cancel()\<close>.\<close>

definition provision_store ::
  "externals \<Rightarrow> functionOperator \<Rightarrow> (NuclioFunction \<Rightarrow> unit call) \<Rightarrow> Context \<Rightarrow> state
     \<Rightarrow> error option result \<times> state" where
  "provision_store x fo store ctx s =
     (case fn s of
        None \<Rightarrow> (Panicking nil_dereference, s)
      | Some function \<Rightarrow>
          let created = functionresClient_CreateOrUpdate fo ctx function (imagePullSecrets fo);
              s1 = emit (ResCreateOrUpdate created)
                     (emit (Log Debug ''Ensuring function resources'') s)
          in case created of
               Panic p \<Rightarrow> (Panicking p, s1)
             | Err err \<Rightarrow>
                 setFunctionError_store store FunctionStateError
                   (Wrap err ''Failed to create/update function'') s1
             | Ok resources \<Rightarrow>
                 (case awaitResources_store x fo store
                         (waitContext x ctx function (Now x (clock s1)))
                         resources (s1\<lparr>clock := Suc (clock s1)\<rparr>) of
                    (r, s2) \<Rightarrow> (r, emit CancelWait s2)))"

text \<open>Lines 108-148.\<close>

definition CreateOrUpdate_body_store ::
  "externals \<Rightarrow> functionOperator \<Rightarrow> (NuclioFunction \<Rightarrow> unit call) \<Rightarrow> Context \<Rightarrow> state
     \<Rightarrow> error option result \<times> state" where
  "CreateOrUpdate_body_store x fo store ctx s =
     (case fn s of
        None \<Rightarrow> (Panicking nil_dereference, s)
      | Some function \<Rightarrow>
          let errorMessages = IsQualifiedName x (Name function)
          in if length errorMessages \<noteq> 0 then
               (Return (Some (New
                  (''Function name doesn't conform to k8s naming convention. Errors: ''
                   @ Join errorMessages '', ''))), s)
             else if \<not> FunctionStateInSlice (State (Status function)) statesToRespond then
               (Return None,
                emit (Log Debug
                  ''NuclioFunction is not waiting for resource creation or ready, skipping create/update'') s)
             else if ShouldSkipDeploy (Annotations function) then
               setFunctionStatus_store store (Status_zero\<lparr>State := FunctionStateImported\<rparr>)
                 (emit (Log Info ''Skipping function deploy'') s)
             else provision_store x fo store ctx s)"

text \<open>
  \<^verbatim>\<open>CreateOrUpdate\<close> (lines 86-220), with the recovery boundary around the body. The custom
  handler of lines 101-105 writes the error status through the same store.
\<close>

definition CreateOrUpdate_store ::
  "externals \<Rightarrow> functionOperator \<Rightarrow> (NuclioFunction \<Rightarrow> unit call) \<Rightarrow> Context
     \<Rightarrow> runtime_Object \<Rightarrow> error option result \<times> state" where
  "CreateOrUpdate_store x fo store ctx object =
     (case object of
        OtherObject d \<Rightarrow>
          setFunctionError_store store FunctionStateError
            (New ''Received unexpected object, expected function'') (initial None)
      | FunctionObject function \<Rightarrow>
          CatchAndLogPanicWithOptions ''nucliofunction.CreateOrUpdate''
            (\<lambda>panicError. setFunctionError_store store FunctionStateError
               (Wrap panicError ''Failed to create/update function''))
            (CreateOrUpdate_body_store x fo store ctx (initial function)))"

subsection \<open>Reading a run\<close>

text \<open>The status writes of a trace: the objects sent to the store, in order.\<close>

fun status_writes :: "event list \<Rightarrow> NuclioFunction list" where
  "status_writes [] = []"
| "status_writes (StoreUpdate f r # es) = f # status_writes es"
| "status_writes (e # es) = status_writes es"

fun resource_creations :: "event list \<Rightarrow> Resources call list" where
  "resource_creations [] = []"
| "resource_creations (ResCreateOrUpdate r # es) = r # resource_creations es"
| "resource_creations (e # es) = resource_creations es"

fun readiness_waits :: "event list \<Rightarrow> (Context \<times> unit call) list" where
  "readiness_waits [] = []"
| "readiness_waits (ResWaitAvailable c r # es) = (c, r) # readiness_waits es"
| "readiness_waits (e # es) = readiness_waits es"

text \<open>
  The events that one call of the status writer leaves in the trace: \<^verbatim>\<open>setFunctionStatus\<close>
  with the object as it is sent to the store, and \<^verbatim>\<open>setFunctionError\<close> around it.
\<close>

definition status_write_events :: "functionOperator \<Rightarrow> NuclioFunction \<Rightarrow> event list" where
  "status_write_events fo f =
     [Log Debug ''Setting function state'', StoreUpdate f (nuclioClientSet_Update fo f)]"

definition error_events :: "functionOperator \<Rightarrow> NuclioFunction \<Rightarrow> event list" where
  "error_events fo f =
     Log Warn ''Setting function error'' # status_write_events fo f
     @ (if nuclioClientSet_Update fo f \<noteq> None
        then [Log Warn ''Failed to update function on error''] else [])"

subsection \<open>What the specification says, in its own words\<close>

text \<open>
  The mapping of the provisioning path, step 4: a waiting state gives a scale event and a
  final state; no other state is mapped.
\<close>

definition spec_scale_mapping :: "FunctionState \<Rightarrow> (ScaleEvent \<times> FunctionState) option" where
  "spec_scale_mapping st =
     (if st = FunctionStateWaitingForScaleResourcesToZero
        then Some (ScaleToZeroCompletedScaleEvent, FunctionStateScaledToZero)
      else if st = FunctionStateWaitingForScaleResourcesFromZero
        then Some (ScaleFromZeroCompletedScaleEvent, FunctionStateReady)
      else if st = FunctionStateWaitingForResourceConfiguration
        then Some (ResourceUpdatedScaleEvent, FunctionStateReady)
      else None)"

text \<open>
  "Scan the ports of the service for the name \<^verbatim>\<open>http\<close>, take its node port, 0 if absent":
  the first port of that name, when there is one.
\<close>

definition first_http_port :: "Service option \<Rightarrow> ServicePort option" where
  "first_http_port service =
     (case service of
        None \<Rightarrow> None
      | Some svc \<Rightarrow> find (\<lambda>p. port_Name p = ''http'') (Spec_Ports svc))"

definition spec_httpPort :: "Service option \<Rightarrow> int" where
  "spec_httpPort service =
     (case first_http_port service of None \<Rightarrow> 0 | Some p \<Rightarrow> sint (port_NodePort p))"

text \<open>The child service exposes an \<^verbatim>\<open>http\<close> port when one of its ports has that name.\<close>

definition exposes_http_port :: "Service option \<Rightarrow> bool" where
  "exposes_http_port service = (first_http_port service \<noteq> None)"

subsection \<open>Concrete collaborators and functions\<close>

text \<open>
  A validator that rejects the name \<^verbatim>\<open>Fn_1!\<close>, a default timeout of 120 seconds and a
  clock that starts at one second and advances by a nanosecond with every reading.
\<close>

definition ex_externals :: externals where
  "ex_externals =
     \<lparr>IsQualifiedName = (\<lambda>n. if n = ''Fn_1!'' then [''name part is not valid''] else []),
      DefaultReadinessTimeoutSeconds = 120,
      Now = (\<lambda>k. 1000000000 + int k)\<rparr>"

text \<open>An operator whose collaborators answer every call in the same given way.\<close>

definition ex_operator :: "Resources call \<Rightarrow> unit call \<Rightarrow> error option \<Rightarrow> functionOperator" where
  "ex_operator created waited updated =
     \<lparr>imagePullSecrets = ''registry-secret'',
      functionresClient_CreateOrUpdate = (\<lambda>c f i. created),
      functionresClient_WaitAvailable = (\<lambda>c ns n. waited),
      nuclioClientSet_Update = (\<lambda>f. updated)\<rparr>"

text \<open>
  A function with the given name, state, annotations and readiness timeout, whose status
  carries a message and a log line from an earlier reconcile.
\<close>

definition ex_status :: "FunctionState \<Rightarrow> functionconfig_Status" where
  "ex_status st =
     \<lparr>State = st, Message = ''earlier message'', Logs = [''earlier log''],
      ScaleToZero = None, HTTPPort = 31000\<rparr>"

definition ex_function ::
  "string \<Rightarrow> FunctionState \<Rightarrow> (string \<rightharpoonup> string) \<Rightarrow> int \<Rightarrow> NuclioFunction" where
  "ex_function name st annotations timeout =
     \<lparr>Name = name, Namespace = ''nuclio'', Annotations = annotations,
      Spec_ReadinessTimeoutSeconds = timeout, Status = ex_status st\<rparr>"

definition ex_service :: "string \<Rightarrow> 32 word \<Rightarrow> Service" where
  "ex_service portName nodePort =
     \<lparr>Spec_Ports = [\<lparr>port_Name = ''metrics'', port_NodePort = 30900\<rparr>,
                   \<lparr>port_Name = portName, port_NodePort = nodePort\<rparr>]\<rparr>"

definition ex_resources :: "Service option call \<Rightarrow> Resources" where
  "ex_resources service = \<lparr>Resources_Service = service\<rparr>"

definition ex_context :: "Time option \<Rightarrow> Context" where
  "ex_context d = \<lparr>Deadline = d\<rparr>"

text \<open>A store that answers an update by the state of the status it is sent.\<close>

definition ex_store :: "(FunctionState \<Rightarrow> unit call) \<Rightarrow> NuclioFunction \<Rightarrow> unit call" where
  "ex_store answer f = answer (State (Status f))"

text \<open>The events that follow the first readiness wait of a trace.\<close>

fun after_wait :: "event list \<Rightarrow> event list" where
  "after_wait [] = []"
| "after_wait (ResWaitAvailable c r # es) = es"
| "after_wait (e # es) = after_wait es"

section \<open>The paths through the handler\<close>

text \<open>
  Each lemma of this section runs \<^verbatim>\<open>CreateOrUpdate\<close> on a function object along one path:
  the conditions that select the path, then the result, the object and the trace it
  leaves. Together the paths cover every run on a function object.
\<close>

lemmas handler_defs = CreateOrUpdate_def CatchAndLogPanicWithOptions_def CreateOrUpdate_body_def
  initial_def provision_def awaitResources_def finalize_def setFunctionStatus_def
  setFunctionError_def getFunctionHTTPPort_def setFunctionScaleToZeroStatus_def emit_def
  status_write_events_def error_events_def Let_def

lemma waiting_responded:
  "FunctionStateInSlice st waitingStates \<Longrightarrow> FunctionStateInSlice st statesToRespond"
  by (auto simp: FunctionStateInSlice_def waitingStates_def statesToRespond_def)

lemma waiting_mapping:
  "FunctionStateInSlice st waitingStates \<Longrightarrow> spec_scale_mapping st = Some (scaleEvent_finalState st)"
  by (auto simp: FunctionStateInSlice_def waitingStates_def spec_scale_mapping_def
      scaleEvent_finalState_def)

lemma path_invalid_name:
  assumes "IsQualifiedName x (Name f) \<noteq> []"
  shows "CreateOrUpdate x fo ctx (FunctionObject (Some f)) =
           (Return (Some (New (''Function name doesn't conform to k8s naming convention. Errors: ''
              @ Join (IsQualifiedName x (Name f)) '', ''))),
            \<lparr>fn = Some f, trace = [], clock = 0\<rparr>)"
  using assms by (simp add: handler_defs)

lemma path_other_state:
  assumes "IsQualifiedName x (Name f) = []"
    and "\<not> FunctionStateInSlice (State (Status f)) statesToRespond"
  shows "CreateOrUpdate x fo ctx (FunctionObject (Some f)) =
           (Return None,
            \<lparr>fn = Some f,
             trace = [Log Debug
               ''NuclioFunction is not waiting for resource creation or ready, skipping create/update''],
             clock = 0\<rparr>)"
  using assms by (simp add: handler_defs)

lemma path_skip_deploy:
  assumes "IsQualifiedName x (Name f) = []"
    and "FunctionStateInSlice (State (Status f)) statesToRespond"
    and "ShouldSkipDeploy (Annotations f)"
    and "f' = f\<lparr>Status := Status_zero\<lparr>State := FunctionStateImported\<rparr>\<rparr>"
  shows "CreateOrUpdate x fo ctx (FunctionObject (Some f)) =
           (Return (nuclioClientSet_Update fo f'),
            \<lparr>fn = Some f',
             trace = Log Info ''Skipping function deploy'' # status_write_events fo f',
             clock = 0\<rparr>)"
  using assms by (simp add: handler_defs)

lemma path_create_panic:
  assumes "IsQualifiedName x (Name f) = []"
    and "FunctionStateInSlice (State (Status f)) statesToRespond"
    and "\<not> ShouldSkipDeploy (Annotations f)"
    and "functionresClient_CreateOrUpdate fo ctx f (imagePullSecrets fo) = Panic p"
    and "f' = f\<lparr>Status := error_status FunctionStateError
                  (Wrap (New p) ''Failed to create/update function'')\<rparr>"
  shows "CreateOrUpdate x fo ctx (FunctionObject (Some f)) =
           (Return None,
            \<lparr>fn = Some f',
             trace = [Log Debug ''Ensuring function resources'', ResCreateOrUpdate (Panic p),
                      Log Error_level ''nucliofunction.CreateOrUpdate''] @ error_events fo f',
             clock = 0\<rparr>)"
  using assms by (simp add: handler_defs)

lemma path_create_error:
  assumes "IsQualifiedName x (Name f) = []"
    and "FunctionStateInSlice (State (Status f)) statesToRespond"
    and "\<not> ShouldSkipDeploy (Annotations f)"
    and "functionresClient_CreateOrUpdate fo ctx f (imagePullSecrets fo) = Err err"
    and "f' = f\<lparr>Status := error_status FunctionStateError
                  (Wrap err ''Failed to create/update function'')\<rparr>"
  shows "CreateOrUpdate x fo ctx (FunctionObject (Some f)) =
           (Return (Some (Wrap err ''Failed to create/update function'')),
            \<lparr>fn = Some f',
             trace = [Log Debug ''Ensuring function resources'', ResCreateOrUpdate (Err err)]
                     @ error_events fo f',
             clock = 0\<rparr>)"
  using assms by (simp add: handler_defs)

lemma path_wait_panic:
  assumes "IsQualifiedName x (Name f) = []"
    and "FunctionStateInSlice (State (Status f)) statesToRespond"
    and "\<not> ShouldSkipDeploy (Annotations f)"
    and "functionresClient_CreateOrUpdate fo ctx f (imagePullSecrets fo) = Ok resources"
    and "c = waitContext x ctx f (Now x 0)"
    and "functionresClient_WaitAvailable fo c (Namespace f) (Name f) = Panic p"
    and "f' = f\<lparr>Status := error_status FunctionStateError
                  (Wrap (New p) ''Failed to create/update function'')\<rparr>"
  shows "CreateOrUpdate x fo ctx (FunctionObject (Some f)) =
           (Return None,
            \<lparr>fn = Some f',
             trace = [Log Debug ''Ensuring function resources'', ResCreateOrUpdate (Ok resources),
                      ResWaitAvailable c (Panic p), CancelWait,
                      Log Error_level ''nucliofunction.CreateOrUpdate''] @ error_events fo f',
             clock = 1\<rparr>)"
  using assms by (simp add: handler_defs)

lemma path_wait_error:
  assumes "IsQualifiedName x (Name f) = []"
    and "FunctionStateInSlice (State (Status f)) statesToRespond"
    and "\<not> ShouldSkipDeploy (Annotations f)"
    and "functionresClient_CreateOrUpdate fo ctx f (imagePullSecrets fo) = Ok resources"
    and "c = waitContext x ctx f (Now x 0)"
    and "functionresClient_WaitAvailable fo c (Namespace f) (Name f) = Err err"
    and "f' = f\<lparr>Status := error_status FunctionStateUnhealthy
                  (Wrap err ''Failed to wait for function resources to be available'')\<rparr>"
  shows "CreateOrUpdate x fo ctx (FunctionObject (Some f)) =
           (Return (Some (Wrap err ''Failed to wait for function resources to be available'')),
            \<lparr>fn = Some f',
             trace = [Log Debug ''Ensuring function resources'', ResCreateOrUpdate (Ok resources),
                      ResWaitAvailable c (Err err)] @ error_events fo f' @ [CancelWait],
             clock = 1\<rparr>)"
  using assms by (simp add: handler_defs)

lemma path_settled:
  assumes "IsQualifiedName x (Name f) = []"
    and "FunctionStateInSlice (State (Status f)) statesToRespond"
    and "\<not> ShouldSkipDeploy (Annotations f)"
    and "functionresClient_CreateOrUpdate fo ctx f (imagePullSecrets fo) = Ok resources"
    and "c = waitContext x ctx f (Now x 0)"
    and "functionresClient_WaitAvailable fo c (Namespace f) (Name f) = Ok ()"
    and "\<not> FunctionStateInSlice (State (Status f)) waitingStates"
  shows "CreateOrUpdate x fo ctx (FunctionObject (Some f)) =
           (Return None,
            \<lparr>fn = Some f,
             trace = [Log Debug ''Ensuring function resources'', ResCreateOrUpdate (Ok resources),
                      ResWaitAvailable c (Ok ()), CancelWait],
             clock = 1\<rparr>)"
  using assms by (simp add: handler_defs)

lemma path_service_panic:
  assumes "IsQualifiedName x (Name f) = []"
    and "FunctionStateInSlice (State (Status f)) waitingStates"
    and "\<not> ShouldSkipDeploy (Annotations f)"
    and "functionresClient_CreateOrUpdate fo ctx f (imagePullSecrets fo) = Ok resources"
    and "c = waitContext x ctx f (Now x 0)"
    and "functionresClient_WaitAvailable fo c (Namespace f) (Name f) = Ok ()"
    and "Resources_Service resources = Panic p"
    and "f' = f\<lparr>Status := error_status FunctionStateError
                  (Wrap (New p) ''Failed to create/update function'')\<rparr>"
  shows "CreateOrUpdate x fo ctx (FunctionObject (Some f)) =
           (Return None,
            \<lparr>fn = Some f',
             trace = [Log Debug ''Ensuring function resources'', ResCreateOrUpdate (Ok resources),
                      ResWaitAvailable c (Ok ()), ResService (Panic p), CancelWait,
                      Log Error_level ''nucliofunction.CreateOrUpdate''] @ error_events fo f',
             clock = 1\<rparr>)"
proof -
  obtain scaleEvent finalState
    where "scaleEvent_finalState (State (Status f)) = (scaleEvent, finalState)"
    by (cases "scaleEvent_finalState (State (Status f))")
  then show ?thesis
    using assms waiting_responded[OF assms(2)] by (simp add: handler_defs)
qed

lemma path_service_error:
  assumes "IsQualifiedName x (Name f) = []"
    and "FunctionStateInSlice (State (Status f)) waitingStates"
    and "\<not> ShouldSkipDeploy (Annotations f)"
    and "functionresClient_CreateOrUpdate fo ctx f (imagePullSecrets fo) = Ok resources"
    and "c = waitContext x ctx f (Now x 0)"
    and "functionresClient_WaitAvailable fo c (Namespace f) (Name f) = Ok ()"
    and "Resources_Service resources = Err err"
  shows "CreateOrUpdate x fo ctx (FunctionObject (Some f)) =
           (Return (Some (Wrap (Wrap err ''Failed to get function service'')
                            ''Failed to get function http port'')),
            \<lparr>fn = Some f,
             trace = [Log Debug ''Ensuring function resources'', ResCreateOrUpdate (Ok resources),
                      ResWaitAvailable c (Ok ()), ResService (Err err), CancelWait],
             clock = 1\<rparr>)"
proof -
  obtain scaleEvent finalState
    where "scaleEvent_finalState (State (Status f)) = (scaleEvent, finalState)"
    by (cases "scaleEvent_finalState (State (Status f))")
  then show ?thesis
    using assms waiting_responded[OF assms(2)] by (simp add: handler_defs)
qed

lemma path_finalized:
  assumes "IsQualifiedName x (Name f) = []"
    and "FunctionStateInSlice (State (Status f)) waitingStates"
    and "\<not> ShouldSkipDeploy (Annotations f)"
    and "functionresClient_CreateOrUpdate fo ctx f (imagePullSecrets fo) = Ok resources"
    and "c = waitContext x ctx f (Now x 0)"
    and "functionresClient_WaitAvailable fo c (Namespace f) (Name f) = Ok ()"
    and "Resources_Service resources = Ok service"
    and "scaleEvent_finalState (State (Status f)) = (scaleEvent, finalState)"
    and "f' = f\<lparr>Status :=
                  \<lparr>State = finalState, Message = [], Logs = [],
                   ScaleToZero = Some \<lparr>LastScaleEvent = scaleEvent,
                                       LastScaleEventTime = Some (Now x 1)\<rparr>,
                   HTTPPort = httpPort_of_service service\<rparr>\<rparr>"
  shows "CreateOrUpdate x fo ctx (FunctionObject (Some f)) =
           (Return (nuclioClientSet_Update fo f'),
            \<lparr>fn = Some f',
             trace = [Log Debug ''Ensuring function resources'', ResCreateOrUpdate (Ok resources),
                      ResWaitAvailable c (Ok ()), ResService (Ok service),
                      Log Debug ''Setting scale to zero status'']
                     @ status_write_events fo f' @ [CancelWait],
             clock = 2\<rparr>)"
  using assms waiting_responded[OF assms(2)] by (simp add: handler_defs Status_zero_def)

subsection \<open>Reading the traces of the paths\<close>

lemma status_writes_append: "status_writes (xs @ ys) = status_writes xs @ status_writes ys"
  by (induction xs rule: status_writes.induct) simp_all

lemma resource_creations_append:
  "resource_creations (xs @ ys) = resource_creations xs @ resource_creations ys"
  by (induction xs rule: resource_creations.induct) simp_all

lemma readiness_waits_append:
  "readiness_waits (xs @ ys) = readiness_waits xs @ readiness_waits ys"
  by (induction xs rule: readiness_waits.induct) simp_all

lemma projections_status_write_events:
  "status_writes (status_write_events fo f) = [f]"
  "resource_creations (status_write_events fo f) = []"
  "readiness_waits (status_write_events fo f) = []"
  "ResService v \<notin> set (status_write_events fo f)"
  by (simp_all add: status_write_events_def)

lemma projections_error_events:
  "status_writes (error_events fo f) = [f]"
  "resource_creations (error_events fo f) = []"
  "readiness_waits (error_events fo f) = []"
  "ResService v \<notin> set (error_events fo f)"
  by (simp_all add: error_events_def status_write_events_def)

lemmas trace_simps = status_writes_append resource_creations_append readiness_waits_append
  projections_status_write_events projections_error_events

text \<open>Every run of the handler on a function object follows one of the eleven paths.\<close>

lemma CreateOrUpdate_paths
  [case_names invalid_name other_state skip_deploy create_panic create_error wait_panic
     wait_error settled service_panic service_error finalized]:
  fixes x fo ctx f
  defines "run \<equiv> CreateOrUpdate x fo ctx (FunctionObject (Some f))"
  defines "c \<equiv> waitContext x ctx f (Now x 0)"
  obtains
    "run = (Return (Some (New (''Function name doesn't conform to k8s naming convention. Errors: ''
              @ Join (IsQualifiedName x (Name f)) '', ''))),
            \<lparr>fn = Some f, trace = [], clock = 0\<rparr>)"
  | "run = (Return None,
            \<lparr>fn = Some f,
             trace = [Log Debug
               ''NuclioFunction is not waiting for resource creation or ready, skipping create/update''],
             clock = 0\<rparr>)"
  | f' where "f' = f\<lparr>Status := Status_zero\<lparr>State := FunctionStateImported\<rparr>\<rparr>"
      "run = (Return (nuclioClientSet_Update fo f'),
            \<lparr>fn = Some f',
             trace = Log Info ''Skipping function deploy'' # status_write_events fo f',
             clock = 0\<rparr>)"
  | p f' where "f' = f\<lparr>Status := error_status FunctionStateError
                  (Wrap (New p) ''Failed to create/update function'')\<rparr>"
      "run = (Return None,
            \<lparr>fn = Some f',
             trace = [Log Debug ''Ensuring function resources'', ResCreateOrUpdate (Panic p),
                      Log Error_level ''nucliofunction.CreateOrUpdate''] @ error_events fo f',
             clock = 0\<rparr>)"
  | err f' where "f' = f\<lparr>Status := error_status FunctionStateError
                  (Wrap err ''Failed to create/update function'')\<rparr>"
      "run = (Return (Some (Wrap err ''Failed to create/update function'')),
            \<lparr>fn = Some f',
             trace = [Log Debug ''Ensuring function resources'', ResCreateOrUpdate (Err err)]
                     @ error_events fo f',
             clock = 0\<rparr>)"
  | resources p f' where "f' = f\<lparr>Status := error_status FunctionStateError
                  (Wrap (New p) ''Failed to create/update function'')\<rparr>"
      "run = (Return None,
            \<lparr>fn = Some f',
             trace = [Log Debug ''Ensuring function resources'', ResCreateOrUpdate (Ok resources),
                      ResWaitAvailable c (Panic p), CancelWait,
                      Log Error_level ''nucliofunction.CreateOrUpdate''] @ error_events fo f',
             clock = 1\<rparr>)"
  | resources err f' where "f' = f\<lparr>Status := error_status FunctionStateUnhealthy
                  (Wrap err ''Failed to wait for function resources to be available'')\<rparr>"
      "run = (Return (Some (Wrap err ''Failed to wait for function resources to be available'')),
            \<lparr>fn = Some f',
             trace = [Log Debug ''Ensuring function resources'', ResCreateOrUpdate (Ok resources),
                      ResWaitAvailable c (Err err)] @ error_events fo f' @ [CancelWait],
             clock = 1\<rparr>)"
  | resources where "\<not> FunctionStateInSlice (State (Status f)) waitingStates"
      "run = (Return None,
            \<lparr>fn = Some f,
             trace = [Log Debug ''Ensuring function resources'', ResCreateOrUpdate (Ok resources),
                      ResWaitAvailable c (Ok ()), CancelWait],
             clock = 1\<rparr>)"
  | resources p f' where "FunctionStateInSlice (State (Status f)) waitingStates"
      "f' = f\<lparr>Status := error_status FunctionStateError
                  (Wrap (New p) ''Failed to create/update function'')\<rparr>"
      "run = (Return None,
            \<lparr>fn = Some f',
             trace = [Log Debug ''Ensuring function resources'', ResCreateOrUpdate (Ok resources),
                      ResWaitAvailable c (Ok ()), ResService (Panic p), CancelWait,
                      Log Error_level ''nucliofunction.CreateOrUpdate''] @ error_events fo f',
             clock = 1\<rparr>)"
  | resources err where "FunctionStateInSlice (State (Status f)) waitingStates"
      "run = (Return (Some (Wrap (Wrap err ''Failed to get function service'')
                            ''Failed to get function http port'')),
            \<lparr>fn = Some f,
             trace = [Log Debug ''Ensuring function resources'', ResCreateOrUpdate (Ok resources),
                      ResWaitAvailable c (Ok ()), ResService (Err err), CancelWait],
             clock = 1\<rparr>)"
  | resources service f' where "FunctionStateInSlice (State (Status f)) waitingStates"
      "f' = f\<lparr>Status :=
                  \<lparr>State = snd (scaleEvent_finalState (State (Status f))), Message = [], Logs = [],
                   ScaleToZero = Some \<lparr>LastScaleEvent = fst (scaleEvent_finalState (State (Status f))),
                                       LastScaleEventTime = Some (Now x 1)\<rparr>,
                   HTTPPort = httpPort_of_service service\<rparr>\<rparr>"
      "run = (Return (nuclioClientSet_Update fo f'),
            \<lparr>fn = Some f',
             trace = [Log Debug ''Ensuring function resources'', ResCreateOrUpdate (Ok resources),
                      ResWaitAvailable c (Ok ()), ResService (Ok service),
                      Log Debug ''Setting scale to zero status'']
                     @ status_write_events fo f' @ [CancelWait],
             clock = 2\<rparr>)"
proof (cases "IsQualifiedName x (Name f) = []")
  case False
  then show ?thesis using that(1) path_invalid_name run_def by blast
next
  case valid: True
  show ?thesis
  proof (cases "FunctionStateInSlice (State (Status f)) statesToRespond")
    case False
    then show ?thesis using that(2) path_other_state valid run_def by blast
  next
    case responded: True
    show ?thesis
    proof (cases "ShouldSkipDeploy (Annotations f)")
      case True
      then show ?thesis using that(3) path_skip_deploy valid responded run_def by blast
    next
      case deploy: False
      show ?thesis
      proof (cases "functionresClient_CreateOrUpdate fo ctx f (imagePullSecrets fo)")
        case (Panic p)
        then show ?thesis
          using that(4) path_create_panic valid responded deploy run_def by blast
      next
        case (Err err)
        then show ?thesis
          using that(5) path_create_error valid responded deploy run_def by blast
      next
        case created: (Ok resources)
        have c: "c = waitContext x ctx f (Now x 0)"
          by (simp add: c_def)
        show ?thesis
        proof (cases "functionresClient_WaitAvailable fo c (Namespace f) (Name f)")
          case (Panic p)
          then show ?thesis
            using that(6) path_wait_panic[OF valid responded deploy created c]
            unfolding run_def by blast
        next
          case (Err err)
          then show ?thesis
            using that(7) path_wait_error[OF valid responded deploy created c]
            unfolding run_def by blast
        next
          case (Ok u)
          then have waited: "functionresClient_WaitAvailable fo c (Namespace f) (Name f) = Ok ()"
            by simp
          show ?thesis
          proof (cases "FunctionStateInSlice (State (Status f)) waitingStates")
            case False
            then show ?thesis
              using that(8) path_settled[OF valid responded deploy created c waited]
              unfolding run_def by blast
          next
            case waiting: True
            show ?thesis
            proof (cases "Resources_Service resources")
              case (Panic p)
              then show ?thesis
                using that(9) path_service_panic[OF valid waiting deploy created c waited]
                  waiting unfolding run_def by blast
            next
              case (Err err)
              then show ?thesis
                using that(10) path_service_error[OF valid waiting deploy created c waited]
                  waiting unfolding run_def by blast
            next
              case (Ok service)
              then show ?thesis
                using that(11) path_finalized[OF valid waiting deploy created c waited Ok]
                  waiting unfolding run_def by (metis prod.collapse)
            qed
          qed
        qed
      qed
    qed
  qed
qed

subsection \<open>Durations\<close>

text \<open>
  A duration of \<open>t\<close> seconds is exact as long as its nanoseconds fit 64 bits, and never
  longer than \<open>t\<close> seconds for a non-negative \<open>t\<close>.
\<close>

lemma wrap64_le: "- (2 ^ 63) \<le> n \<Longrightarrow> wrap64 n \<le> n"
  unfolding wrap64_def
  by (simp add: sint_sbintrunc' signed_take_bit_int_less_eq_self_iff)

lemma wrap64_exact: "- (2 ^ 63) \<le> n \<Longrightarrow> n < 2 ^ 63 \<Longrightarrow> wrap64 n = n"
  unfolding wrap64_def
  by (simp add: sint_sbintrunc' signed_take_bit_int_eq_self)

lemma wrap64_less: "wrap64 n < 2 ^ 63"
  unfolding wrap64_def
  using signed_take_bit_int_less_exp[of 63 n] by (simp add: sint_sbintrunc')

lemma Duration_seconds_exact:
  assumes "0 \<le> t" and "t * Second < 2 ^ 63"
  shows "Duration_seconds t = t * Second"
proof -
  have "t \<le> t * Second" using assms(1) by (simp add: Second_def)
  then have "t < 2 ^ 63" using assms(2) by linarith
  then have "wrap64 t = t" using assms(1) by (simp add: wrap64_exact)
  moreover have "0 \<le> t * Second" using assms(1) by (simp add: Second_def)
  ultimately show ?thesis
    unfolding Duration_seconds_def using assms(2) by (simp add: wrap64_exact)
qed

lemma Duration_seconds_le:
  assumes "0 \<le> t"
  shows "Duration_seconds t \<le> t * Second"
proof (cases "t * Second < 2 ^ 63")
  case True
  then show ?thesis using assms by (simp add: Duration_seconds_exact)
next
  case False
  have "Duration_seconds t < 2 ^ 63"
    unfolding Duration_seconds_def by (rule wrap64_less)
  with False show ?thesis by linarith
qed

subsection \<open>The port scan\<close>

text \<open>The loop with its \<^verbatim>\<open>break\<close> finds the first port named \<^verbatim>\<open>http\<close>.\<close>

lemma scanPorts_find:
  "scanPorts ports 0 =
     (case find (\<lambda>p. port_Name p = ''http'') ports of None \<Rightarrow> 0 | Some p \<Rightarrow> sint (port_NodePort p))"
  by (induction ports) (simp_all add: ContainerHTTPPortName_def)

lemma httpPort_of_service_spec: "httpPort_of_service service = spec_httpPort service"
  by (cases service)
     (simp_all add: httpPort_of_service_def spec_httpPort_def first_http_port_def scanPorts_find)

subsection \<open>Unfolding\<close>

lemmas ex_defs = ex_externals_def ex_operator_def ex_function_def ex_status_def ex_service_def
  ex_resources_def ex_context_def

lemmas state_defs = FunctionStateInSlice_def waitingStates_def statesToRespond_def
  ShouldSkipDeploy_def truthy_def scaleEvent_finalState_def spec_scale_mapping_def

subsection \<open>Panics\<close>

text \<open>The stack string of an error is never empty.\<close>

lemma error_chain_nonempty: "error_chain err \<noteq> []"
  by (induction err) simp_all

lemma GetErrorStackString_nonempty: "GetErrorStackString err 10 \<noteq> []"
proof -
  obtain m ms where "error_chain err = m # ms"
    using error_chain_nonempty[of err] by (cases "error_chain err") auto
  then show ?thesis
    by (simp add: GetErrorStackString_def GetErrorStack_def)
qed

subsection \<open>The store that may panic\<close>

text \<open>
  Over the store of an operator, which returns, the second embedding of the handler is
  the first.
\<close>

lemma setFunctionStatus_store_agrees:
  "setFunctionStatus_store (returning_store fo) status s = setFunctionStatus fo status s"
  by (simp add: setFunctionStatus_store_def setFunctionStatus_def returning_store_def Let_def
      emit_def split: option.splits)

lemma setFunctionError_store_agrees:
  "setFunctionError_store (returning_store fo) st err s = setFunctionError fo st err s"
  unfolding setFunctionError_store_def setFunctionError_def setFunctionStatus_store_agrees
  by (rule refl)

lemma finalize_store_agrees:
  "finalize_store x (returning_store fo) resources s = finalize x fo resources s"
  unfolding finalize_store_def finalize_def setFunctionStatus_store_agrees
  by (rule refl)

lemma awaitResources_store_agrees:
  "awaitResources_store x fo (returning_store fo) c resources s
     = awaitResources x fo c resources s"
  unfolding awaitResources_store_def awaitResources_def setFunctionError_store_agrees
    finalize_store_agrees
  by (rule refl)

lemma provision_store_agrees:
  "provision_store x fo (returning_store fo) ctx s = provision x fo ctx s"
  unfolding provision_store_def provision_def setFunctionError_store_agrees
    awaitResources_store_agrees
  by (rule refl)

lemma CreateOrUpdate_body_store_agrees:
  "CreateOrUpdate_body_store x fo (returning_store fo) ctx s = CreateOrUpdate_body x fo ctx s"
  unfolding CreateOrUpdate_body_store_def CreateOrUpdate_body_def
    setFunctionStatus_store_agrees provision_store_agrees
  by (rule refl)

lemma CreateOrUpdate_store_agrees:
  "CreateOrUpdate_store x fo (returning_store fo) ctx object = CreateOrUpdate x fo ctx object"
  unfolding CreateOrUpdate_store_def CreateOrUpdate_def setFunctionError_store_agrees
    CreateOrUpdate_body_store_agrees
  by (rule refl)

text \<open>
  A panic of the status writer leaves the object with the status it was about to write;
  a panic of the body leaves the object as it was but for its status, and no update has
  reached the store.
\<close>

lemma setFunctionStatus_store_panic:
  assumes "setFunctionStatus_store store status s = (Panicking p, s')" and "fn s = Some f"
  shows "fn s' = Some (f\<lparr>Status := status\<rparr>)
         \<and> status_writes (trace s') = status_writes (trace s)"
  using assms
  by (auto simp: setFunctionStatus_store_def Let_def emit_def status_writes_append
      split: call.splits)

lemma setFunctionError_store_panic:
  assumes "setFunctionError_store store st err s = (Panicking p, s')" and "fn s = Some f"
  shows "fn s' = Some (f\<lparr>Status := error_status st err\<rparr>)
         \<and> status_writes (trace s') = status_writes (trace s)"
proof -
  have w: "setFunctionStatus_store store (error_status st err)
             (emit (Log Warn ''Setting function error'') s) = (Panicking p, s')"
    using assms
    by (auto simp: setFunctionError_store_def split: prod.splits result.splits)
  have "fn (emit (Log Warn ''Setting function error'') s) = Some f"
    using assms(2) by (simp add: emit_def)
  from setFunctionStatus_store_panic[OF w this] show ?thesis
    by (simp add: emit_def status_writes_append)
qed

lemma setFunctionError_store_returns:
  assumes "fn s = Some f" and "call_returns (store (f\<lparr>Status := error_status st err\<rparr>))"
  shows "\<exists>s'. setFunctionError_store store st err s = (Return (Some err), s')
            \<and> fn s' = Some (f\<lparr>Status := error_status st err\<rparr>)
            \<and> status_writes (trace s')
                = status_writes (trace s) @ [f\<lparr>Status := error_status st err\<rparr>]"
  using assms
  by (cases "store (f\<lparr>Status := error_status st err\<rparr>)")
     (simp_all add: setFunctionError_store_def setFunctionStatus_store_def call_returns_def
        emit_def Let_def status_writes_append)

lemma finalize_store_panic:
  assumes "finalize_store x store resources s = (Panicking p, s')" and "fn s = Some f"
  shows "\<exists>st. fn s' = Some (f\<lparr>Status := st\<rparr>)
              \<and> status_writes (trace s') = status_writes (trace s)"
proof (cases "FunctionStateInSlice (State (Status f)) waitingStates")
  case False
  then show ?thesis
    using assms by (simp add: finalize_store_def)
next
  case True
  obtain scaleEvent finalState
    where m: "scaleEvent_finalState (State (Status f)) = (scaleEvent, finalState)"
    by (cases "scaleEvent_finalState (State (Status f))")
  show ?thesis
  proof (cases "Resources_Service resources")
    case (Ok service)
    define s2 where "s2 = snd (snd (setFunctionScaleToZeroStatus x
        (Status_zero\<lparr>State := finalState, HTTPPort := httpPort_of_service service\<rparr>) scaleEvent
        (emit (ResService (Ok service)) s)))"
    define functionStatus where "functionStatus = fst (snd (setFunctionScaleToZeroStatus x
        (Status_zero\<lparr>State := finalState, HTTPPort := httpPort_of_service service\<rparr>) scaleEvent
        (emit (ResService (Ok service)) s)))"
    have w: "setFunctionStatus_store store functionStatus s2 = (Panicking p, s')"
      using assms True m Ok
      by (simp add: finalize_store_def getFunctionHTTPPort_def Let_def s2_def
          functionStatus_def setFunctionScaleToZeroStatus_def)
    have s2: "fn s2 = Some f" "status_writes (trace s2) = status_writes (trace s)"
      using assms(2)
      by (simp_all add: s2_def setFunctionScaleToZeroStatus_def Let_def emit_def
          status_writes_append)
    from setFunctionStatus_store_panic[OF w s2(1)] s2(2) show ?thesis
      by auto
  next
    case (Err err)
    then show ?thesis
      using assms True m by (simp add: finalize_store_def getFunctionHTTPPort_def Let_def)
  next
    case (Panic q)
    have "f\<lparr>Status := Status f\<rparr> = f"
      by simp
    then show ?thesis
      using assms True m Panic
      by (auto simp: finalize_store_def getFunctionHTTPPort_def Let_def emit_def
          status_writes_append intro: exI[of _ "Status f"])
  qed
qed

lemma awaitResources_store_panic:
  assumes "awaitResources_store x fo store c resources s = (Panicking p, s')"
    and "fn s = Some f"
  shows "\<exists>st. fn s' = Some (f\<lparr>Status := st\<rparr>)
              \<and> status_writes (trace s') = status_writes (trace s)"
proof (cases "functionresClient_WaitAvailable fo c (Namespace f) (Name f)")
  case (Ok u)
  then have "finalize_store x store resources (emit (ResWaitAvailable c (Ok u)) s)
               = (Panicking p, s')"
    using assms by (simp add: awaitResources_store_def Let_def)
  from finalize_store_panic[OF this, of f] assms(2) show ?thesis
    by (simp add: emit_def status_writes_append)
next
  case (Err err)
  then have "setFunctionError_store store FunctionStateUnhealthy
               (Wrap err ''Failed to wait for function resources to be available'')
               (emit (ResWaitAvailable c (Err err)) s) = (Panicking p, s')"
    using assms by (simp add: awaitResources_store_def Let_def)
  from setFunctionError_store_panic[OF this, of f] assms(2) show ?thesis
    by (auto simp: emit_def status_writes_append)
next
  case (Panic q)
  have "f\<lparr>Status := Status f\<rparr> = f"
    by simp
  then show ?thesis
    using assms Panic
    by (auto simp: awaitResources_store_def Let_def emit_def status_writes_append
        intro: exI[of _ "Status f"])
qed

lemma provision_store_panic:
  assumes "provision_store x fo store ctx s = (Panicking p, s')" and "fn s = Some f"
  shows "\<exists>st. fn s' = Some (f\<lparr>Status := st\<rparr>)
              \<and> status_writes (trace s') = status_writes (trace s)"
proof (cases "functionresClient_CreateOrUpdate fo ctx f (imagePullSecrets fo)")
  case (Ok resources)
  define s1 where "s1 = emit (ResCreateOrUpdate (Ok resources))
                          (emit (Log Debug ''Ensuring function resources'') s)"
  obtain r s2 where a: "awaitResources_store x fo store (waitContext x ctx f (Now x (clock s1)))
                          resources (s1\<lparr>clock := Suc (clock s1)\<rparr>) = (r, s2)"
    by (cases "awaitResources_store x fo store (waitContext x ctx f (Now x (clock s1)))
                 resources (s1\<lparr>clock := Suc (clock s1)\<rparr>)")
  have "provision_store x fo store ctx s = (r, emit CancelWait s2)"
    using assms(2) Ok a by (simp add: provision_store_def Let_def s1_def)
  with assms(1) have r: "r = Panicking p" and s': "s' = emit CancelWait s2"
    by simp_all
  have "fn (s1\<lparr>clock := Suc (clock s1)\<rparr>) = Some f"
    using assms(2) by (simp add: s1_def emit_def)
  from awaitResources_store_panic[OF a[unfolded r] this] show ?thesis
    by (simp add: s' s1_def emit_def status_writes_append)
next
  case (Err err)
  then have "setFunctionError_store store FunctionStateError
               (Wrap err ''Failed to create/update function'')
               (emit (ResCreateOrUpdate (Err err))
                  (emit (Log Debug ''Ensuring function resources'') s)) = (Panicking p, s')"
    using assms by (simp add: provision_store_def Let_def)
  from setFunctionError_store_panic[OF this, of f] assms(2) show ?thesis
    by (auto simp: emit_def status_writes_append)
next
  case (Panic q)
  have "f\<lparr>Status := Status f\<rparr> = f"
    by simp
  then show ?thesis
    using assms Panic
    by (auto simp: provision_store_def Let_def emit_def status_writes_append
        intro: exI[of _ "Status f"])
qed

lemma CreateOrUpdate_body_store_panic:
  assumes "CreateOrUpdate_body_store x fo store ctx s = (Panicking p, s')" and "fn s = Some f"
  shows "\<exists>st. fn s' = Some (f\<lparr>Status := st\<rparr>)
              \<and> status_writes (trace s') = status_writes (trace s)"
proof (cases "IsQualifiedName x (Name f) = []
              \<and> FunctionStateInSlice (State (Status f)) statesToRespond")
  case False
  then show ?thesis
    using assms by (auto simp: CreateOrUpdate_body_store_def Let_def split: if_splits)
next
  case True
  show ?thesis
  proof (cases "ShouldSkipDeploy (Annotations f)")
    case skip: True
    have "setFunctionStatus_store store (Status_zero\<lparr>State := FunctionStateImported\<rparr>)
            (emit (Log Info ''Skipping function deploy'') s) = (Panicking p, s')"
      using assms True skip by (simp add: CreateOrUpdate_body_store_def Let_def)
    from setFunctionStatus_store_panic[OF this, of f] assms(2) show ?thesis
      by (auto simp: emit_def status_writes_append)
  next
    case False
    then have "provision_store x fo store ctx s = (Panicking p, s')"
      using assms True by (simp add: CreateOrUpdate_body_store_def Let_def)
    from provision_store_panic[OF this assms(2)] show ?thesis .
  qed
qed

subsection \<open>The readiness wait\<close>

text \<open>
  The deadline of a derived context is the earlier of the two deadlines. A run that waits
  does so once, on the context of line 167, and cancels that context afterwards.
\<close>

lemma WithDeadline_min:
  "Deadline (WithDeadline parent d) =
     Some (case Deadline parent of None \<Rightarrow> d | Some cur \<Rightarrow> min cur d)"
  by (simp add: WithDeadline_def min_def split: option.splits)

lemma wait_is_bounded_and_cancelled:
  assumes run: "CreateOrUpdate x fo ctx (FunctionObject (Some f)) = (r, s)"
    and wait: "(c, w) \<in> set (readiness_waits (trace s))"
  shows "c = waitContext x ctx f (Now x 0) \<and> readiness_waits (trace s) = [(c, w)]
         \<and> CancelWait \<in> set (after_wait (trace s))"
proof -
  have s: "s = snd (CreateOrUpdate x fo ctx (FunctionObject (Some f)))"
    using run by simp
  show ?thesis
    using wait unfolding s
    by - (rule CreateOrUpdate_paths[of x fo ctx f], simp_all add: trace_simps)
qed

section \<open>The claims\<close>

subsection \<open>C1: a waiting state is left with a scale event\<close>

text \<open>
  C1 as stated fails when the readiness wait succeeds and \<^verbatim>\<open>Resources.Service()\<close> then
  returns an error: the name is valid, there is no skip-deploy annotation, the resources
  are created and the wait succeeds, yet the handler returns an error, stamps no scale
  event and writes no status; the earlier message and logs are still there.
\<close>

theorem waiting_transition_counterexample:
  "FunctionStateInSlice
     (State (Status (ex_function ''fn1'' FunctionStateWaitingForResourceConfiguration
        Map.empty 0))) waitingStates
   \<and> IsQualifiedName ex_externals
       (Name (ex_function ''fn1'' FunctionStateWaitingForResourceConfiguration Map.empty 0)) = []
   \<and> \<not> ShouldSkipDeploy
       (Annotations (ex_function ''fn1'' FunctionStateWaitingForResourceConfiguration
          Map.empty 0))
   \<and> resource_creations (trace (snd (CreateOrUpdate ex_externals
          (ex_operator (Ok (ex_resources (Err (New ''no service'')))) (Ok ()) None)
          (ex_context None)
          (FunctionObject (Some (ex_function ''fn1''
             FunctionStateWaitingForResourceConfiguration Map.empty 0))))))
       = [Ok (ex_resources (Err (New ''no service'')))]
   \<and> readiness_waits (trace (snd (CreateOrUpdate ex_externals
          (ex_operator (Ok (ex_resources (Err (New ''no service'')))) (Ok ()) None)
          (ex_context None)
          (FunctionObject (Some (ex_function ''fn1''
             FunctionStateWaitingForResourceConfiguration Map.empty 0))))))
       = [(ex_context (Some 121000000000), Ok ())]
   \<and> fst (CreateOrUpdate ex_externals
          (ex_operator (Ok (ex_resources (Err (New ''no service'')))) (Ok ()) None)
          (ex_context None)
          (FunctionObject (Some (ex_function ''fn1''
             FunctionStateWaitingForResourceConfiguration Map.empty 0))))
       = Return (Some (Wrap (Wrap (New ''no service'') ''Failed to get function service'')
                         ''Failed to get function http port''))
   \<and> map_option Status (fn (snd (CreateOrUpdate ex_externals
          (ex_operator (Ok (ex_resources (Err (New ''no service'')))) (Ok ()) None)
          (ex_context None)
          (FunctionObject (Some (ex_function ''fn1''
             FunctionStateWaitingForResourceConfiguration Map.empty 0))))))
       = Some \<lparr>State = FunctionStateWaitingForResourceConfiguration,
               Message = ''earlier message'', Logs = [''earlier log''],
               ScaleToZero = None, HTTPPort = 31000\<rparr>
   \<and> status_writes (trace (snd (CreateOrUpdate ex_externals
          (ex_operator (Ok (ex_resources (Err (New ''no service'')))) (Ok ()) None)
          (ex_context None)
          (FunctionObject (Some (ex_function ''fn1''
             FunctionStateWaitingForResourceConfiguration Map.empty 0)))))) = []"
  by (simp add: handler_defs ex_defs state_defs waitContext_def WithDeadline_def
        readinessTimeout_def Duration_seconds_def wrap64_def Second_def)

text \<open>
  C1, amended. For every reconcile of a function whose state is one of the three waiting
  states, that passes the name validation, is not skip-deploy, succeeds through the
  creation of the resources and the readiness wait, and gets the service of the
  resources: one scale event is stamped according to the mapping of the specification,
  \<^verbatim>\<open>WaitingForScaleResourcesToZero\<close> to \<^verbatim>\<open>(ScaleToZeroCompleted, ScaledToZero)\<close>,
  \<^verbatim>\<open>WaitingForScaleResourcesFromZero\<close> to \<^verbatim>\<open>(ScaleFromZeroCompleted, Ready)\<close> and
  \<^verbatim>\<open>WaitingForResourceConfiguration\<close> to \<^verbatim>\<open>(ResourceUpdated, Ready)\<close>, and the status of the
  function is replaced whole by the final state, the HTTP port and the scale event with
  its time, the clock reading taken when the event is stamped. The earlier message and
  logs are dropped. The new status is written to the store once, and the handler returns
  what that write returns.
\<close>

theorem waiting_transition_stamps_scale_event:
  assumes waiting: "FunctionStateInSlice (State (Status f)) waitingStates"
    and valid: "IsQualifiedName x (Name f) = []"
    and deploy: "\<not> ShouldSkipDeploy (Annotations f)"
    and created: "functionresClient_CreateOrUpdate fo ctx f (imagePullSecrets fo) = Ok resources"
    and waited: "functionresClient_WaitAvailable fo (waitContext x ctx f (Now x 0))
                   (Namespace f) (Name f) = Ok ()"
    and service: "Resources_Service resources = Ok service"
  shows "\<exists>scaleEvent finalState f' s.
           spec_scale_mapping (State (Status f)) = Some (scaleEvent, finalState)
         \<and> f' = f\<lparr>Status :=
                  \<lparr>State = finalState, Message = [], Logs = [],
                   ScaleToZero = Some \<lparr>LastScaleEvent = scaleEvent,
                                       LastScaleEventTime = Some (Now x 1)\<rparr>,
                   HTTPPort = httpPort_of_service service\<rparr>\<rparr>
         \<and> CreateOrUpdate x fo ctx (FunctionObject (Some f))
             = (Return (nuclioClientSet_Update fo f'), s)
         \<and> fn s = Some f'
         \<and> status_writes (trace s) = [f']"
proof -
  obtain scaleEvent finalState
    where m: "scaleEvent_finalState (State (Status f)) = (scaleEvent, finalState)"
    by (cases "scaleEvent_finalState (State (Status f))")
  have "spec_scale_mapping (State (Status f)) = Some (scaleEvent, finalState)"
    using waiting_mapping[OF waiting] m by simp
  then show ?thesis
    using path_finalized[OF valid waiting deploy created refl waited service m refl]
    by (simp add: trace_simps)
qed

text \<open>
  Scenario S1: a function that waits for its resource configuration, with a service whose
  \<^verbatim>\<open>http\<close> port has the node port 30080.
\<close>

theorem waiting_transition_stamps_scale_event_witness:
  "FunctionStateInSlice
     (State (Status (ex_function ''fn1'' FunctionStateWaitingForResourceConfiguration
        Map.empty 0))) waitingStates
   \<and> IsQualifiedName ex_externals
       (Name (ex_function ''fn1'' FunctionStateWaitingForResourceConfiguration Map.empty 0)) = []
   \<and> \<not> ShouldSkipDeploy
       (Annotations (ex_function ''fn1'' FunctionStateWaitingForResourceConfiguration
          Map.empty 0))
   \<and> fst (CreateOrUpdate ex_externals
          (ex_operator (Ok (ex_resources (Ok (Some (ex_service ''http'' 30080))))) (Ok ()) None)
          (ex_context None)
          (FunctionObject (Some (ex_function ''fn1''
             FunctionStateWaitingForResourceConfiguration Map.empty 0)))) = Return None
   \<and> map_option Status (fn (snd (CreateOrUpdate ex_externals
          (ex_operator (Ok (ex_resources (Ok (Some (ex_service ''http'' 30080))))) (Ok ()) None)
          (ex_context None)
          (FunctionObject (Some (ex_function ''fn1''
             FunctionStateWaitingForResourceConfiguration Map.empty 0))))))
       = Some \<lparr>State = FunctionStateReady, Message = [], Logs = [],
               ScaleToZero = Some \<lparr>LastScaleEvent = ResourceUpdatedScaleEvent,
                                   LastScaleEventTime = Some 1000000001\<rparr>,
               HTTPPort = 30080\<rparr>"
proof -
  let ?f = "ex_function ''fn1'' FunctionStateWaitingForResourceConfiguration Map.empty 0"
  let ?fo = "ex_operator (Ok (ex_resources (Ok (Some (ex_service ''http'' 30080))))) (Ok ()) None"
  have waiting: "FunctionStateInSlice (State (Status ?f)) waitingStates"
    by (simp add: ex_defs state_defs)
  have valid: "IsQualifiedName ex_externals (Name ?f) = []"
    by (simp add: ex_defs)
  have deploy: "\<not> ShouldSkipDeploy (Annotations ?f)"
    by (simp add: ex_defs state_defs)
  have created: "functionresClient_CreateOrUpdate ?fo (ex_context None) ?f (imagePullSecrets ?fo)
                   = Ok (ex_resources (Ok (Some (ex_service ''http'' 30080))))"
    by (simp add: ex_operator_def)
  have waited: "functionresClient_WaitAvailable ?fo
                  (waitContext ex_externals (ex_context None) ?f (Now ex_externals 0))
                  (Namespace ?f) (Name ?f) = Ok ()"
    by (simp add: ex_operator_def)
  have service: "Resources_Service (ex_resources (Ok (Some (ex_service ''http'' 30080))))
                   = Ok (Some (ex_service ''http'' 30080))"
    by (simp add: ex_resources_def)
  from waiting_transition_stamps_scale_event[OF waiting valid deploy created waited service]
    waiting valid deploy
  show ?thesis
    by (auto simp: ex_defs state_defs httpPort_of_service_def ContainerHTTPPortName_def)
qed

subsection \<open>C2: failures of the provisioning path\<close>

text \<open>
  C2. In the provisioning path the failures are classified by phase. If the call of
  \<^verbatim>\<open>ResourceClient.CreateOrUpdate\<close> returns an error, the status of the function is
  written with the state \<^verbatim>\<open>Error\<close> and the stack of the wrapped error, and the wrapped
  error is returned. If the call of \<^verbatim>\<open>ResourceClient.WaitAvailable\<close> returns an error,
  an expired deadline among them, the status is written with the state \<^verbatim>\<open>Unhealthy\<close>,
  not \<^verbatim>\<open>Error\<close>, and the wrapped error is returned.
\<close>

theorem provisioning_failures_classified:
  assumes run: "CreateOrUpdate x fo ctx (FunctionObject (Some f)) = (r, s)"
  shows "(Err err \<in> set (resource_creations (trace s)) \<longrightarrow>
            r = Return (Some (Wrap err ''Failed to create/update function''))
          \<and> (\<exists>f'. fn s = Some f' \<and> status_writes (trace s) = [f']
                 \<and> State (Status f') = FunctionStateError
                 \<and> Message (Status f')
                     = GetErrorStackString (Wrap err ''Failed to create/update function'') 10))
       \<and> ((c, Err err) \<in> set (readiness_waits (trace s)) \<longrightarrow>
            r = Return (Some (Wrap err ''Failed to wait for function resources to be available''))
          \<and> (\<exists>f'. fn s = Some f' \<and> status_writes (trace s) = [f']
                 \<and> State (Status f') = FunctionStateUnhealthy
                 \<and> State (Status f') \<noteq> FunctionStateError
                 \<and> Message (Status f')
                     = GetErrorStackString
                         (Wrap err ''Failed to wait for function resources to be available'') 10))"
proof -
  have r: "r = fst (CreateOrUpdate x fo ctx (FunctionObject (Some f)))"
    and s: "s = snd (CreateOrUpdate x fo ctx (FunctionObject (Some f)))"
    using run by simp_all
  show ?thesis
    unfolding r s
    by (rule CreateOrUpdate_paths[of x fo ctx f])
       (simp_all add: trace_simps error_status_def Status_zero_def)
qed

text \<open>
  The resources client fails on one function, and the wait fails on another that
  scales from zero (scenario S3).
\<close>

theorem provisioning_failures_classified_witness:
  "Err (New ''quota exceeded'')
     \<in> set (resource_creations (trace (snd (CreateOrUpdate ex_externals
          (ex_operator (Err (New ''quota exceeded'')) (Ok ()) None) (ex_context None)
          (FunctionObject (Some (ex_function ''fn1'' FunctionStateReady Map.empty 0)))))))
   \<and> fst (CreateOrUpdate ex_externals
          (ex_operator (Err (New ''quota exceeded'')) (Ok ()) None) (ex_context None)
          (FunctionObject (Some (ex_function ''fn1'' FunctionStateReady Map.empty 0))))
       = Return (Some (Wrap (New ''quota exceeded'') ''Failed to create/update function''))
   \<and> map_option (State \<circ> Status) (fn (snd (CreateOrUpdate ex_externals
          (ex_operator (Err (New ''quota exceeded'')) (Ok ()) None) (ex_context None)
          (FunctionObject (Some (ex_function ''fn1'' FunctionStateReady Map.empty 0))))))
       = Some FunctionStateError
   \<and> (ex_context (Some 2000000000), Err (New ''context deadline exceeded''))
     \<in> set (readiness_waits (trace (snd (CreateOrUpdate ex_externals
          (ex_operator (Ok (ex_resources (Ok None))) (Err (New ''context deadline exceeded'')) None)
          (ex_context None)
          (FunctionObject (Some (ex_function ''fn1''
             FunctionStateWaitingForScaleResourcesFromZero Map.empty 1)))))))
   \<and> fst (CreateOrUpdate ex_externals
          (ex_operator (Ok (ex_resources (Ok None))) (Err (New ''context deadline exceeded'')) None)
          (ex_context None)
          (FunctionObject (Some (ex_function ''fn1''
             FunctionStateWaitingForScaleResourcesFromZero Map.empty 1))))
       = Return (Some (Wrap (New ''context deadline exceeded'')
                   ''Failed to wait for function resources to be available''))
   \<and> map_option (State \<circ> Status) (fn (snd (CreateOrUpdate ex_externals
          (ex_operator (Ok (ex_resources (Ok None))) (Err (New ''context deadline exceeded'')) None)
          (ex_context None)
          (FunctionObject (Some (ex_function ''fn1''
             FunctionStateWaitingForScaleResourcesFromZero Map.empty 1))))))
       = Some FunctionStateUnhealthy"
proof -
  let ?a = "CreateOrUpdate ex_externals
          (ex_operator (Err (New ''quota exceeded'')) (Ok ()) None) (ex_context None)
          (FunctionObject (Some (ex_function ''fn1'' FunctionStateReady Map.empty 0)))"
  let ?b = "CreateOrUpdate ex_externals
          (ex_operator (Ok (ex_resources (Ok None))) (Err (New ''context deadline exceeded'')) None)
          (ex_context None)
          (FunctionObject (Some (ex_function ''fn1''
             FunctionStateWaitingForScaleResourcesFromZero Map.empty 1)))"
  have a: "?a = (fst ?a, snd ?a)" and b: "?b = (fst ?b, snd ?b)"
    by simp_all
  have created: "Err (New ''quota exceeded'') \<in> set (resource_creations (trace (snd ?a)))"
    by (simp add: handler_defs ex_defs state_defs)
  have waited: "(ex_context (Some 2000000000), Err (New ''context deadline exceeded''))
                  \<in> set (readiness_waits (trace (snd ?b)))"
    by (simp add: handler_defs ex_defs state_defs waitContext_def WithDeadline_def
        readinessTimeout_def Duration_seconds_def wrap64_def Second_def)
  from provisioning_failures_classified[OF a, where err = "New ''quota exceeded''"]
    provisioning_failures_classified[OF b, where err = "New ''context deadline exceeded''"
      and c = "ex_context (Some 2000000000)"]
    created waited
  show ?thesis
    by auto
qed

subsection \<open>C3: a panic is captured and becomes an error status\<close>

text \<open>
  C3 as stated fails when the store panics. The recovery boundary writes the error status
  through the same \<^verbatim>\<open>Update\<close> of line 281 and has no boundary of its own: on a function
  with the skip-deploy annotation and a store that panics on every update, the status
  write of line 145 panics after the boundary is installed, the panic is captured, the
  custom handler of lines 101-105 runs into the store again, and this second panic
  leaves \<^verbatim>\<open>CreateOrUpdate\<close>.
\<close>

theorem panic_recovery_counterexample:
  "fst (CreateOrUpdate_body_store ex_externals
          (ex_operator (Ok (ex_resources (Ok None))) (Ok ()) None)
          (ex_store (\<lambda>st. Panic ''store unavailable'')) (ex_context None)
          (initial (Some (ex_function ''fn1'' FunctionStateWaitingForResourceConfiguration
             [''skip-deploy'' \<mapsto> ''true''] 0)))) = Panicking ''store unavailable''
   \<and> fst (CreateOrUpdate_store ex_externals
          (ex_operator (Ok (ex_resources (Ok None))) (Ok ()) None)
          (ex_store (\<lambda>st. Panic ''store unavailable'')) (ex_context None)
          (FunctionObject (Some (ex_function ''fn1'' FunctionStateWaitingForResourceConfiguration
             [''skip-deploy'' \<mapsto> ''true''] 0)))) = Panicking ''store unavailable''
   \<and> status_writes (trace (snd (CreateOrUpdate_store ex_externals
          (ex_operator (Ok (ex_resources (Ok None))) (Ok ()) None)
          (ex_store (\<lambda>st. Panic ''store unavailable'')) (ex_context None)
          (FunctionObject (Some (ex_function ''fn1'' FunctionStateWaitingForResourceConfiguration
             [''skip-deploy'' \<mapsto> ''true''] 0)))))) = []"
  by (simp add: CreateOrUpdate_store_def CatchAndLogPanicWithOptions_def
      CreateOrUpdate_body_store_def setFunctionError_store_def setFunctionStatus_store_def
      initial_def emit_def Let_def ex_defs ex_store_def state_defs)

text \<open>
  C3, amended. For every invocation of \<^verbatim>\<open>CreateOrUpdate\<close> on a function object in which
  the processing panics after the recovery boundary is installed, whether in a call of the
  resources client or in a call of the store, and in which the status write of the
  recovery handler returns: the panic is captured and not raised again, the handler
  returns \<^verbatim>\<open>nil\<close>, and the status of the function is set to the state \<^verbatim>\<open>Error\<close> with a
  message that is the stack string of the wrapped panic to a depth of 10, not empty and
  of at most 10 frames. It is the one status that reaches the store.
\<close>

theorem panic_captured_sets_error:
  assumes panics: "fst (CreateOrUpdate_body_store x fo store ctx (initial (Some f)))
                     = Panicking p"
    and recovers: "call_returns (store (f\<lparr>Status := error_status FunctionStateError
                     (Wrap (New p) ''Failed to create/update function'')\<rparr>))"
  shows "\<exists>s f'. CreateOrUpdate_store x fo store ctx (FunctionObject (Some f)) = (Return None, s)
           \<and> fn s = Some f'
           \<and> status_writes (trace s) = [f']
           \<and> State (Status f') = FunctionStateError
           \<and> Message (Status f')
               = GetErrorStackString (Wrap (New p) ''Failed to create/update function'') 10
           \<and> Message (Status f') \<noteq> []
           \<and> length (GetErrorStack (Wrap (New p) ''Failed to create/update function'') 10) \<le> 10"
proof -
  define e where "e = Wrap (New p) ''Failed to create/update function''"
  obtain s0 where body: "CreateOrUpdate_body_store x fo store ctx (initial (Some f))
                           = (Panicking p, s0)"
    using panics by (cases "CreateOrUpdate_body_store x fo store ctx (initial (Some f))") simp
  have "fn (initial (Some f)) = Some f" and "trace (initial (Some f)) = []"
    by (simp_all add: initial_def)
  with CreateOrUpdate_body_store_panic[OF body, of f]
  obtain st where s0: "fn s0 = Some (f\<lparr>Status := st\<rparr>)" "status_writes (trace s0) = []"
    by auto
  let ?s1 = "emit (Log Error_level ''nucliofunction.CreateOrUpdate'') s0"
  have s1: "fn ?s1 = Some (f\<lparr>Status := st\<rparr>)"
    using s0 by (simp add: emit_def)
  have same: "f\<lparr>Status := st\<rparr>\<lparr>Status := error_status FunctionStateError e\<rparr>
                = f\<lparr>Status := error_status FunctionStateError e\<rparr>"
    by simp
  have "call_returns (store (f\<lparr>Status := st\<rparr>\<lparr>Status := error_status FunctionStateError e\<rparr>))"
    using recovers by (simp add: e_def)
  from setFunctionError_store_returns[where s = ?s1 and f = "f\<lparr>Status := st\<rparr>"
      and store = store and st = FunctionStateError and err = e, OF s1 this]
  obtain s where s: "setFunctionError_store store FunctionStateError e ?s1
                       = (Return (Some e), s)"
      "fn s = Some (f\<lparr>Status := error_status FunctionStateError e\<rparr>)"
      "status_writes (trace s) = [f\<lparr>Status := error_status FunctionStateError e\<rparr>]"
    using s0 by (auto simp: emit_def status_writes_append)
  have "CreateOrUpdate_store x fo store ctx (FunctionObject (Some f)) = (Return None, s)"
    using body s(1)
    by (simp add: CreateOrUpdate_store_def CatchAndLogPanicWithOptions_def e_def)
  then show ?thesis
    using s(2,3) GetErrorStackString_nonempty[of e]
    by (simp add: e_def error_status_def Status_zero_def GetErrorStack_def)
qed

text \<open>
  A store that panics when it is sent the state \<^verbatim>\<open>Imported\<close> and returns otherwise, on a
  function with the skip-deploy annotation: the write of line 145 panics, the recovery
  handler's write returns, the handler returns \<^verbatim>\<open>nil\<close> and the function is in the state
  \<^verbatim>\<open>Error\<close>.
\<close>

theorem panic_captured_sets_error_witness:
  "fst (CreateOrUpdate_body_store ex_externals
          (ex_operator (Ok (ex_resources (Ok None))) (Ok ()) None)
          (ex_store (\<lambda>st. if st = FunctionStateImported then Panic ''store unavailable''
                          else Ok ()))
          (ex_context None)
          (initial (Some (ex_function ''fn1'' FunctionStateWaitingForResourceConfiguration
             [''skip-deploy'' \<mapsto> ''true''] 0)))) = Panicking ''store unavailable''
   \<and> call_returns
        (ex_store (\<lambda>st. if st = FunctionStateImported then Panic ''store unavailable''
                        else Ok ())
           ((ex_function ''fn1'' FunctionStateWaitingForResourceConfiguration
               [''skip-deploy'' \<mapsto> ''true''] 0)
            \<lparr>Status := error_status FunctionStateError
               (Wrap (New ''store unavailable'') ''Failed to create/update function'')\<rparr>))
   \<and> fst (CreateOrUpdate_store ex_externals
          (ex_operator (Ok (ex_resources (Ok None))) (Ok ()) None)
          (ex_store (\<lambda>st. if st = FunctionStateImported then Panic ''store unavailable''
                          else Ok ()))
          (ex_context None)
          (FunctionObject (Some (ex_function ''fn1'' FunctionStateWaitingForResourceConfiguration
             [''skip-deploy'' \<mapsto> ''true''] 0)))) = Return None
   \<and> map_option (State \<circ> Status)
        (fn (snd (CreateOrUpdate_store ex_externals
          (ex_operator (Ok (ex_resources (Ok None))) (Ok ()) None)
          (ex_store (\<lambda>st. if st = FunctionStateImported then Panic ''store unavailable''
                          else Ok ()))
          (ex_context None)
          (FunctionObject (Some (ex_function ''fn1'' FunctionStateWaitingForResourceConfiguration
             [''skip-deploy'' \<mapsto> ''true''] 0)))))) = Some FunctionStateError"
proof -
  let ?store = "ex_store (\<lambda>st. if st = FunctionStateImported then Panic ''store unavailable''
                              else Ok ())"
  let ?f = "ex_function ''fn1'' FunctionStateWaitingForResourceConfiguration
              [''skip-deploy'' \<mapsto> ''true''] 0"
  have panics: "fst (CreateOrUpdate_body_store ex_externals
          (ex_operator (Ok (ex_resources (Ok None))) (Ok ()) None) ?store (ex_context None)
          (initial (Some ?f))) = Panicking ''store unavailable''"
    by (simp add: CreateOrUpdate_body_store_def setFunctionStatus_store_def initial_def
        emit_def Let_def ex_defs ex_store_def state_defs Status_zero_def)
  have recovers: "call_returns (?store (?f\<lparr>Status := error_status FunctionStateError
                     (Wrap (New ''store unavailable'') ''Failed to create/update function'')\<rparr>))"
    by (simp add: call_returns_def ex_store_def error_status_def Status_zero_def)
  from panic_captured_sets_error[OF panics recovers] panics recovers show ?thesis
    by auto
qed

subsection \<open>C4: ready and scaled-to-zero functions\<close>

text \<open>
  C4. For every reconcile of a function whose state is \<^verbatim>\<open>Ready\<close> or \<^verbatim>\<open>ScaledToZero\<close>,
  where the creation of the resources and the readiness wait both succeed: the status of
  the function is not mutated, no status write is issued and \<^verbatim>\<open>CreateOrUpdate\<close> returns
  \<^verbatim>\<open>nil\<close>.
\<close>

theorem settled_function_not_mutated:
  assumes run: "CreateOrUpdate x fo ctx (FunctionObject (Some f)) = (r, s)"
    and settled: "State (Status f) = FunctionStateReady
                  \<or> State (Status f) = FunctionStateScaledToZero"
    and created: "Ok resources \<in> set (resource_creations (trace s))"
    and waited: "(c, Ok ()) \<in> set (readiness_waits (trace s))"
  shows "r = Return None \<and> fn s = Some f \<and> status_writes (trace s) = []"
proof -
  have r: "r = fst (CreateOrUpdate x fo ctx (FunctionObject (Some f)))"
    and s: "s = snd (CreateOrUpdate x fo ctx (FunctionObject (Some f)))"
    using run by simp_all
  have not_waiting: "\<not> FunctionStateInSlice (State (Status f)) waitingStates"
    using settled by (auto simp: FunctionStateInSlice_def waitingStates_def)
  show ?thesis
    using created waited not_waiting unfolding r s
    by - (rule CreateOrUpdate_paths[of x fo ctx f], simp_all add: trace_simps)
qed

text \<open>A ready function whose resources are healthy keeps its status, message and logs.\<close>

theorem settled_function_not_mutated_witness:
  "(State (Status (ex_function ''fn1'' FunctionStateReady Map.empty 0)) = FunctionStateReady
    \<or> State (Status (ex_function ''fn1'' FunctionStateReady Map.empty 0))
        = FunctionStateScaledToZero)
   \<and> Ok (ex_resources (Ok None))
     \<in> set (resource_creations (trace (snd (CreateOrUpdate ex_externals
          (ex_operator (Ok (ex_resources (Ok None))) (Ok ()) None) (ex_context None)
          (FunctionObject (Some (ex_function ''fn1'' FunctionStateReady Map.empty 0)))))))
   \<and> (ex_context (Some 121000000000), Ok ())
     \<in> set (readiness_waits (trace (snd (CreateOrUpdate ex_externals
          (ex_operator (Ok (ex_resources (Ok None))) (Ok ()) None) (ex_context None)
          (FunctionObject (Some (ex_function ''fn1'' FunctionStateReady Map.empty 0)))))))
   \<and> CreateOrUpdate ex_externals
          (ex_operator (Ok (ex_resources (Ok None))) (Ok ()) None) (ex_context None)
          (FunctionObject (Some (ex_function ''fn1'' FunctionStateReady Map.empty 0)))
       = (Return None,
          snd (CreateOrUpdate ex_externals
            (ex_operator (Ok (ex_resources (Ok None))) (Ok ()) None) (ex_context None)
            (FunctionObject (Some (ex_function ''fn1'' FunctionStateReady Map.empty 0)))))
   \<and> fn (snd (CreateOrUpdate ex_externals
          (ex_operator (Ok (ex_resources (Ok None))) (Ok ()) None) (ex_context None)
          (FunctionObject (Some (ex_function ''fn1'' FunctionStateReady Map.empty 0)))))
       = Some (ex_function ''fn1'' FunctionStateReady Map.empty 0)"
proof -
  let ?run = "CreateOrUpdate ex_externals
          (ex_operator (Ok (ex_resources (Ok None))) (Ok ()) None) (ex_context None)
          (FunctionObject (Some (ex_function ''fn1'' FunctionStateReady Map.empty 0)))"
  have run: "?run = (fst ?run, snd ?run)"
    by simp
  have settled: "State (Status (ex_function ''fn1'' FunctionStateReady Map.empty 0))
                   = FunctionStateReady
                 \<or> State (Status (ex_function ''fn1'' FunctionStateReady Map.empty 0))
                   = FunctionStateScaledToZero"
    by (simp add: ex_defs)
  have created: "Ok (ex_resources (Ok None)) \<in> set (resource_creations (trace (snd ?run)))"
    by (simp add: handler_defs ex_defs state_defs)
  have waited: "(ex_context (Some 121000000000), Ok ())
                  \<in> set (readiness_waits (trace (snd ?run)))"
    by (simp add: handler_defs ex_defs state_defs waitContext_def WithDeadline_def
        readinessTimeout_def Duration_seconds_def wrap64_def Second_def)
  from settled_function_not_mutated[OF run settled created waited] settled created waited
  show ?thesis
    by (metis prod.collapse)
qed

subsection \<open>C5: the skip-deploy annotation\<close>

text \<open>
  C5 as stated fails on a function whose name is not valid: the validation comes first,
  so the handler returns the validation error and writes no status, although the state
  is responded to and the annotation is present and truthy.
\<close>

theorem skip_deploy_counterexample:
  "FunctionStateInSlice
     (State (Status (ex_function ''Fn_1!'' FunctionStateWaitingForResourceConfiguration
        [''skip-deploy'' \<mapsto> ''true''] 0))) statesToRespond
   \<and> Annotations (ex_function ''Fn_1!'' FunctionStateWaitingForResourceConfiguration
        [''skip-deploy'' \<mapsto> ''true''] 0) ''skip-deploy'' = Some ''true''
   \<and> truthy ''true''
   \<and> CreateOrUpdate ex_externals (ex_operator (Ok (ex_resources (Ok None))) (Ok ()) None)
        (ex_context None)
        (FunctionObject (Some (ex_function ''Fn_1!'' FunctionStateWaitingForResourceConfiguration
           [''skip-deploy'' \<mapsto> ''true''] 0)))
       = (Return (Some (New
            ''Function name doesn't conform to k8s naming convention. Errors: name part is not valid'')),
          \<lparr>fn = Some (ex_function ''Fn_1!'' FunctionStateWaitingForResourceConfiguration
                  [''skip-deploy'' \<mapsto> ''true''] 0),
           trace = [], clock = 0\<rparr>)"
  by (simp add: handler_defs ex_defs state_defs)

text \<open>
  C5, amended. For every reconcile of a function whose name passes the validation, in a
  state that is responded to, with a skip-deploy annotation that is present and truthy:
  the resources client is never called, the status of the function is written once as
  \<^verbatim>\<open>{state=Imported}\<close>, every other field at its zero value, and the handler returns what
  the status write returns: \<^verbatim>\<open>nil\<close> unless the write fails.
\<close>

theorem skip_deploy_marks_imported:
  assumes valid: "IsQualifiedName x (Name f) = []"
    and responded: "FunctionStateInSlice (State (Status f)) statesToRespond"
    and marker: "Annotations f ''skip-deploy'' = Some v"
    and true: "truthy v"
  shows "\<exists>s f'. f' = f\<lparr>Status := \<lparr>State = FunctionStateImported, Message = [], Logs = [],
                                   ScaleToZero = None, HTTPPort = 0\<rparr>\<rparr>
           \<and> CreateOrUpdate x fo ctx (FunctionObject (Some f))
               = (Return (nuclioClientSet_Update fo f'), s)
           \<and> fn s = Some f'
           \<and> status_writes (trace s) = [f']
           \<and> resource_creations (trace s) = []"
proof -
  have skip: "ShouldSkipDeploy (Annotations f)"
    using marker true by (simp add: ShouldSkipDeploy_def)
  show ?thesis
    using path_skip_deploy[OF valid responded skip refl, of fo ctx]
    by (simp add: trace_simps Status_zero_def)
qed

text \<open>Scenario S5: the annotation \<^verbatim>\<open>skip-deploy: "true"\<close> on a valid function.\<close>

theorem skip_deploy_marks_imported_witness:
  "IsQualifiedName ex_externals
     (Name (ex_function ''fn1'' FunctionStateWaitingForResourceConfiguration
        [''skip-deploy'' \<mapsto> ''true''] 0)) = []
   \<and> FunctionStateInSlice
       (State (Status (ex_function ''fn1'' FunctionStateWaitingForResourceConfiguration
          [''skip-deploy'' \<mapsto> ''true''] 0))) statesToRespond
   \<and> Annotations (ex_function ''fn1'' FunctionStateWaitingForResourceConfiguration
        [''skip-deploy'' \<mapsto> ''true''] 0) ''skip-deploy'' = Some ''true''
   \<and> truthy ''true''
   \<and> fst (CreateOrUpdate ex_externals (ex_operator (Ok (ex_resources (Ok None))) (Ok ()) None)
        (ex_context None)
        (FunctionObject (Some (ex_function ''fn1'' FunctionStateWaitingForResourceConfiguration
           [''skip-deploy'' \<mapsto> ''true''] 0)))) = Return None
   \<and> map_option Status
       (fn (snd (CreateOrUpdate ex_externals
         (ex_operator (Ok (ex_resources (Ok None))) (Ok ()) None) (ex_context None)
         (FunctionObject (Some (ex_function ''fn1'' FunctionStateWaitingForResourceConfiguration
            [''skip-deploy'' \<mapsto> ''true''] 0))))))
       = Some \<lparr>State = FunctionStateImported, Message = [], Logs = [],
               ScaleToZero = None, HTTPPort = 0\<rparr>
   \<and> resource_creations
       (trace (snd (CreateOrUpdate ex_externals
         (ex_operator (Ok (ex_resources (Ok None))) (Ok ()) None) (ex_context None)
         (FunctionObject (Some (ex_function ''fn1'' FunctionStateWaitingForResourceConfiguration
            [''skip-deploy'' \<mapsto> ''true''] 0)))))) = []"
proof -
  let ?f = "ex_function ''fn1'' FunctionStateWaitingForResourceConfiguration
              [''skip-deploy'' \<mapsto> ''true''] 0"
  have valid: "IsQualifiedName ex_externals (Name ?f) = []"
    by (simp add: ex_defs)
  have responded: "FunctionStateInSlice (State (Status ?f)) statesToRespond"
    by (simp add: ex_defs state_defs)
  have marker: "Annotations ?f ''skip-deploy'' = Some ''true''"
    by (simp add: ex_defs)
  have true: "truthy ''true''"
    by (simp add: truthy_def)
  from skip_deploy_marks_imported[OF valid responded marker true,
      where fo = "ex_operator (Ok (ex_resources (Ok None))) (Ok ()) None"
        and ctx = "ex_context None"]
    valid responded marker true
  show ?thesis
    by (auto simp: ex_operator_def)
qed

subsection \<open>C6: a name that is not a qualified name\<close>

text \<open>
  C6. For every function whose name fails the qualified-name validation,
  \<^verbatim>\<open>CreateOrUpdate\<close> returns the validation error, made of the messages of the validator,
  and the status is not touched: the object is as it was, no status write is issued and
  no collaborator is called.
\<close>

theorem invalid_name_rejected:
  assumes "IsQualifiedName x (Name f) \<noteq> []"
  shows "\<exists>s. CreateOrUpdate x fo ctx (FunctionObject (Some f))
               = (Return (Some (New
                    (''Function name doesn't conform to k8s naming convention. Errors: ''
                     @ Join (IsQualifiedName x (Name f)) '', ''))), s)
            \<and> fn s = Some f
            \<and> status_writes (trace s) = []
            \<and> trace s = []"
  using path_invalid_name[OF assms] by simp

text \<open>The function \<^verbatim>\<open>Fn_1!\<close> of scenario S4 keeps its status.\<close>

theorem invalid_name_rejected_witness:
  "IsQualifiedName ex_externals
     (Name (ex_function ''Fn_1!'' FunctionStateWaitingForResourceConfiguration Map.empty 0)) \<noteq> []
   \<and> fn (snd (CreateOrUpdate ex_externals (ex_operator (Panic ''unused'') (Ok ()) None)
        (ex_context None)
        (FunctionObject (Some (ex_function ''Fn_1!'' FunctionStateWaitingForResourceConfiguration
           Map.empty 0)))))
       = Some (ex_function ''Fn_1!'' FunctionStateWaitingForResourceConfiguration Map.empty 0)
   \<and> fst (CreateOrUpdate ex_externals (ex_operator (Panic ''unused'') (Ok ()) None)
        (ex_context None)
        (FunctionObject (Some (ex_function ''Fn_1!'' FunctionStateWaitingForResourceConfiguration
           Map.empty 0))))
       = Return (Some (New
           ''Function name doesn't conform to k8s naming convention. Errors: name part is not valid''))"
proof -
  have h: "IsQualifiedName ex_externals
     (Name (ex_function ''Fn_1!'' FunctionStateWaitingForResourceConfiguration Map.empty 0)) \<noteq> []"
    by (simp add: ex_defs)
  from invalid_name_rejected[OF h, where fo = "ex_operator (Panic ''unused'') (Ok ()) None"
      and ctx = "ex_context None"] h
  show ?thesis
    by (auto simp: ex_externals_def ex_function_def)
qed

subsection \<open>C7: the HTTP port of the status\<close>

text \<open>
  C7 as stated fails on a service whose \<^verbatim>\<open>http\<close> port has no node port: the child service
  exposes an \<^verbatim>\<open>http\<close> port, the reconcile succeeds and the state is \<^verbatim>\<open>Ready\<close>, yet the HTTP
  port of the status is the node port \<open>0\<close>, which is not positive.
\<close>

theorem http_port_counterexample:
  "exposes_http_port (Some (ex_service ''http'' 0))
   \<and> fst (CreateOrUpdate ex_externals
          (ex_operator (Ok (ex_resources (Ok (Some (ex_service ''http'' 0))))) (Ok ()) None)
          (ex_context None)
          (FunctionObject (Some (ex_function ''fn1''
             FunctionStateWaitingForResourceConfiguration Map.empty 0)))) = Return None
   \<and> map_option (State \<circ> Status) (fn (snd (CreateOrUpdate ex_externals
          (ex_operator (Ok (ex_resources (Ok (Some (ex_service ''http'' 0))))) (Ok ()) None)
          (ex_context None)
          (FunctionObject (Some (ex_function ''fn1''
             FunctionStateWaitingForResourceConfiguration Map.empty 0))))))
       = Some FunctionStateReady
   \<and> map_option (HTTPPort \<circ> Status) (fn (snd (CreateOrUpdate ex_externals
          (ex_operator (Ok (ex_resources (Ok (Some (ex_service ''http'' 0))))) (Ok ()) None)
          (ex_context None)
          (FunctionObject (Some (ex_function ''fn1''
             FunctionStateWaitingForResourceConfiguration Map.empty 0))))))
       = Some 0"
  by (simp add: handler_defs ex_defs state_defs waitContext_def WithDeadline_def
        readinessTimeout_def Duration_seconds_def wrap64_def Second_def Status_zero_def
        httpPort_of_service_def ContainerHTTPPortName_def exposes_http_port_def
        first_http_port_def)

text \<open>
  C7, amended. For any reconcile on a waiting state that succeeds past the creation of
  the resources and the readiness wait and gets the service of the resources, the HTTP
  port of the status is the node port of the first service port named \<^verbatim>\<open>http\<close>, and \<open>0\<close>
  if there is no such port or no service. A positive HTTP port implies that the child
  service exposes an \<^verbatim>\<open>http\<close> port; a service that exposes one gives a positive HTTP port
  exactly when the node port of its first \<^verbatim>\<open>http\<close> port is positive.
\<close>

theorem http_port_of_first_http_service_port:
  assumes waiting: "FunctionStateInSlice (State (Status f)) waitingStates"
    and valid: "IsQualifiedName x (Name f) = []"
    and deploy: "\<not> ShouldSkipDeploy (Annotations f)"
    and created: "functionresClient_CreateOrUpdate fo ctx f (imagePullSecrets fo) = Ok resources"
    and waited: "functionresClient_WaitAvailable fo (waitContext x ctx f (Now x 0))
                   (Namespace f) (Name f) = Ok ()"
    and service: "Resources_Service resources = Ok service"
  shows "\<exists>s f'. CreateOrUpdate x fo ctx (FunctionObject (Some f))
                  = (Return (nuclioClientSet_Update fo f'), s)
           \<and> fn s = Some f'
           \<and> HTTPPort (Status f') = spec_httpPort service
           \<and> (\<not> exposes_http_port service \<longrightarrow> HTTPPort (Status f') = 0)
           \<and> (0 < HTTPPort (Status f') \<longrightarrow> exposes_http_port service)
           \<and> (\<forall>p. first_http_port service = Some p \<longrightarrow>
                  HTTPPort (Status f') = sint (port_NodePort p)
                \<and> (0 < HTTPPort (Status f') \<longleftrightarrow> 0 < sint (port_NodePort p)))"
proof -
  obtain scaleEvent finalState
    where m: "scaleEvent_finalState (State (Status f)) = (scaleEvent, finalState)"
    by (cases "scaleEvent_finalState (State (Status f))")
  have port: "(\<not> exposes_http_port service \<longrightarrow> spec_httpPort service = 0)
      \<and> (0 < spec_httpPort service \<longrightarrow> exposes_http_port service)
      \<and> (\<forall>p. first_http_port service = Some p \<longrightarrow>
             spec_httpPort service = sint (port_NodePort p))"
    by (cases "first_http_port service") (simp_all add: spec_httpPort_def exposes_http_port_def)
  show ?thesis
    using path_finalized[OF valid waiting deploy created refl waited service m refl] port
    by (simp add: httpPort_of_service_spec)
qed

text \<open>
  Scenario S1 again: the \<^verbatim>\<open>http\<close> port comes second among the ports of the service and
  has the node port 30080.
\<close>

theorem http_port_of_first_http_service_port_witness:
  "FunctionStateInSlice
     (State (Status (ex_function ''fn1'' FunctionStateWaitingForScaleResourcesFromZero
        Map.empty 0))) waitingStates
   \<and> IsQualifiedName ex_externals
       (Name (ex_function ''fn1'' FunctionStateWaitingForScaleResourcesFromZero Map.empty 0)) = []
   \<and> \<not> ShouldSkipDeploy
       (Annotations (ex_function ''fn1'' FunctionStateWaitingForScaleResourcesFromZero
          Map.empty 0))
   \<and> first_http_port (Some (ex_service ''http'' 30080))
       = Some \<lparr>port_Name = ''http'', port_NodePort = 30080\<rparr>
   \<and> exposes_http_port (Some (ex_service ''http'' 30080))
   \<and> map_option (HTTPPort \<circ> Status) (fn (snd (CreateOrUpdate ex_externals
          (ex_operator (Ok (ex_resources (Ok (Some (ex_service ''http'' 30080))))) (Ok ()) None)
          (ex_context None)
          (FunctionObject (Some (ex_function ''fn1''
             FunctionStateWaitingForScaleResourcesFromZero Map.empty 0))))))
       = Some 30080"
proof -
  let ?f = "ex_function ''fn1'' FunctionStateWaitingForScaleResourcesFromZero Map.empty 0"
  let ?fo = "ex_operator (Ok (ex_resources (Ok (Some (ex_service ''http'' 30080))))) (Ok ()) None"
  have waiting: "FunctionStateInSlice (State (Status ?f)) waitingStates"
    by (simp add: ex_defs state_defs)
  have valid: "IsQualifiedName ex_externals (Name ?f) = []"
    by (simp add: ex_defs)
  have deploy: "\<not> ShouldSkipDeploy (Annotations ?f)"
    by (simp add: ex_defs state_defs)
  have created: "functionresClient_CreateOrUpdate ?fo (ex_context None) ?f (imagePullSecrets ?fo)
                   = Ok (ex_resources (Ok (Some (ex_service ''http'' 30080))))"
    by (simp add: ex_operator_def)
  have waited: "functionresClient_WaitAvailable ?fo
                  (waitContext ex_externals (ex_context None) ?f (Now ex_externals 0))
                  (Namespace ?f) (Name ?f) = Ok ()"
    by (simp add: ex_operator_def)
  have service: "Resources_Service (ex_resources (Ok (Some (ex_service ''http'' 30080))))
                   = Ok (Some (ex_service ''http'' 30080))"
    by (simp add: ex_resources_def)
  have first: "first_http_port (Some (ex_service ''http'' 30080))
                 = Some \<lparr>port_Name = ''http'', port_NodePort = 30080\<rparr>"
    by (simp add: first_http_port_def ex_service_def)
  have exposed: "exposes_http_port (Some (ex_service ''http'' 30080))"
    by (simp add: exposes_http_port_def first)
  from http_port_of_first_http_service_port[OF waiting valid deploy created waited service]
    waiting valid deploy first exposed
  show ?thesis
    by auto
qed

subsection \<open>C8: the readiness wait has a deadline and is cancelled\<close>

text \<open>
  C8. Whenever the handler waits for the resources of a function, the context \<open>c\<close> of the
  wait has a deadline that is at most the clock reading taken before the wait plus the
  readiness timeout \<open>t\<close> in seconds, and at most the deadline of the incoming context when
  that one has a deadline; it is the minimum of the two as long as the nanoseconds of \<open>t\<close>
  fit 64 bits. Here \<open>t\<close> is the readiness timeout of the spec, replaced by
  \<^verbatim>\<open>DefaultReadinessTimeoutSeconds\<close> when it is \<open>0\<close>, and not negative, as the data model
  has it. The handler waits once, and the context is cancelled after the wait, on every
  way out of the handler.
\<close>

theorem readiness_wait_deadline_bounded:
  assumes run: "CreateOrUpdate x fo ctx (FunctionObject (Some f)) = (r, s)"
    and wait: "(c, w) \<in> set (readiness_waits (trace s))"
    and timeout: "t = (if Spec_ReadinessTimeoutSeconds f = 0
                       then DefaultReadinessTimeoutSeconds x
                       else Spec_ReadinessTimeoutSeconds f)"
    and nonneg: "0 \<le> t"
  shows "\<exists>d. Deadline c = Some d
           \<and> d \<le> Now x 0 + t * Second
           \<and> (\<forall>p. Deadline ctx = Some p \<longrightarrow> d \<le> p)
           \<and> (t * Second < 2 ^ 63 \<longrightarrow>
                d = (case Deadline ctx of
                       None \<Rightarrow> Now x 0 + t * Second
                     | Some p \<Rightarrow> min p (Now x 0 + t * Second)))
           \<and> readiness_waits (trace s) = [(c, w)]
           \<and> CancelWait \<in> set (after_wait (trace s))"
proof -
  have t: "readinessTimeout x f = t"
    by (simp add: readinessTimeout_def timeout)
  from wait_is_bounded_and_cancelled[OF run wait]
  have c: "c = WithDeadline ctx (Now x 0 + Duration_seconds t)"
    and once: "readiness_waits (trace s) = [(c, w)]"
    and cancelled: "CancelWait \<in> set (after_wait (trace s))"
    by (simp_all add: waitContext_def t)
  have le: "Duration_seconds t \<le> t * Second"
    by (rule Duration_seconds_le[OF nonneg])
  have exact: "t * Second < 2 ^ 63 \<Longrightarrow> Duration_seconds t = t * Second"
    by (rule Duration_seconds_exact[OF nonneg])
  show ?thesis
    using le exact once cancelled
    by (auto simp: c WithDeadline_min split: option.splits)
qed

text \<open>
  A ready function with no timeout of its own, reconciled at one second under a context
  that ends at five seconds: the default of 120 seconds applies and the wait ends with
  the incoming context.
\<close>

theorem readiness_wait_deadline_bounded_witness:
  "(ex_context (Some 5000000000), Ok ())
     \<in> set (readiness_waits (trace (snd (CreateOrUpdate ex_externals
          (ex_operator (Ok (ex_resources (Ok None))) (Ok ()) None) (ex_context (Some 5000000000))
          (FunctionObject (Some (ex_function ''fn1'' FunctionStateReady Map.empty 0)))))))
   \<and> (0::int) \<le> 120
   \<and> (120::int) * Second < 2 ^ 63
   \<and> Deadline (ex_context (Some 5000000000)) = Some (min 5000000000 (1000000000 + 120 * Second))
   \<and> CancelWait \<in> set (after_wait (trace (snd (CreateOrUpdate ex_externals
          (ex_operator (Ok (ex_resources (Ok None))) (Ok ()) None) (ex_context (Some 5000000000))
          (FunctionObject (Some (ex_function ''fn1'' FunctionStateReady Map.empty 0)))))))"
proof -
  let ?run = "CreateOrUpdate ex_externals
          (ex_operator (Ok (ex_resources (Ok None))) (Ok ()) None) (ex_context (Some 5000000000))
          (FunctionObject (Some (ex_function ''fn1'' FunctionStateReady Map.empty 0)))"
  have run: "?run = (fst ?run, snd ?run)"
    by simp
  have wait: "(ex_context (Some 5000000000), Ok ()) \<in> set (readiness_waits (trace (snd ?run)))"
    by (simp add: handler_defs ex_defs state_defs waitContext_def WithDeadline_def
        readinessTimeout_def Duration_seconds_def wrap64_def Second_def)
  have timeout: "(120::int) =
      (if Spec_ReadinessTimeoutSeconds (ex_function ''fn1'' FunctionStateReady Map.empty 0) = 0
       then DefaultReadinessTimeoutSeconds ex_externals
       else Spec_ReadinessTimeoutSeconds (ex_function ''fn1'' FunctionStateReady Map.empty 0))"
    by (simp add: ex_defs)
  have nonneg: "(0::int) \<le> 120"
    by simp
  have small: "(120::int) * Second < 2 ^ 63"
    by (simp add: Second_def)
  from readiness_wait_deadline_bounded[OF run wait timeout nonneg] small wait
  show ?thesis
    by (auto simp: ex_defs)
qed

subsection \<open>C9: an object that is not a function\<close>

text \<open>
  C9. The claim is that \<^verbatim>\<open>setFunctionError\<close> on a \<^verbatim>\<open>nil\<close> function skips the status write
  and returns the error it was given. The code has no such short cut: on an object that
  is not a function, \<^verbatim>\<open>CreateOrUpdate\<close> calls \<^verbatim>\<open>setFunctionError(nil, ...)\<close>, which reads
  \<^verbatim>\<open>function.Name\<close> for its warning and panics on the \<^verbatim>\<open>nil\<close> pointer, before the
  recovery boundary is deferred. Nothing is logged or written, and no error is returned.
\<close>

theorem unexpected_object_panics:
  "CreateOrUpdate x fo ctx (OtherObject d)
     = (Panicking nil_dereference, \<lparr>fn = None, trace = [], clock = 0\<rparr>)"
  by (simp add: CreateOrUpdate_def setFunctionError_def initial_def)

subsection \<open>C10: the service of the resources cannot be had\<close>

text \<open>
  C10. If, after a successful readiness wait on a waiting state, \<^verbatim>\<open>Resources.Service()\<close>
  returns an error, \<^verbatim>\<open>CreateOrUpdate\<close> returns that error wrapped twice and writes no
  status: the object is as it was, no status write is issued, and the state, still the
  waiting state, is neither \<^verbatim>\<open>Error\<close> nor \<^verbatim>\<open>Unhealthy\<close>.
\<close>

theorem service_failure_leaves_status:
  assumes run: "CreateOrUpdate x fo ctx (FunctionObject (Some f)) = (r, s)"
    and waiting: "FunctionStateInSlice (State (Status f)) waitingStates"
    and waited: "(c, Ok ()) \<in> set (readiness_waits (trace s))"
    and service: "ResService (Err err) \<in> set (trace s)"
  shows "r = Return (Some (Wrap (Wrap err ''Failed to get function service'')
                             ''Failed to get function http port''))
         \<and> fn s = Some f
         \<and> status_writes (trace s) = []
         \<and> State (Status f) \<noteq> FunctionStateError
         \<and> State (Status f) \<noteq> FunctionStateUnhealthy"
proof -
  have r: "r = fst (CreateOrUpdate x fo ctx (FunctionObject (Some f)))"
    and s: "s = snd (CreateOrUpdate x fo ctx (FunctionObject (Some f)))"
    using run by simp_all
  have state: "State (Status f) \<noteq> FunctionStateError"
      "State (Status f) \<noteq> FunctionStateUnhealthy"
    using waiting by (auto simp: FunctionStateInSlice_def waitingStates_def)
  show ?thesis
    using waited service state unfolding r s
    by - (rule CreateOrUpdate_paths[of x fo ctx f], simp_all add: trace_simps)
qed

text \<open>
  A function that waits for its resource configuration, with resources whose service
  cannot be had: the earlier status, message and logs, is still there.
\<close>

theorem service_failure_leaves_status_witness:
  "FunctionStateInSlice
     (State (Status (ex_function ''fn1'' FunctionStateWaitingForResourceConfiguration
        Map.empty 0))) waitingStates
   \<and> (ex_context (Some 121000000000), Ok ())
     \<in> set (readiness_waits (trace (snd (CreateOrUpdate ex_externals
          (ex_operator (Ok (ex_resources (Err (New ''no service'')))) (Ok ()) None)
          (ex_context None)
          (FunctionObject (Some (ex_function ''fn1''
             FunctionStateWaitingForResourceConfiguration Map.empty 0)))))))
   \<and> ResService (Err (New ''no service''))
     \<in> set (trace (snd (CreateOrUpdate ex_externals
          (ex_operator (Ok (ex_resources (Err (New ''no service'')))) (Ok ()) None)
          (ex_context None)
          (FunctionObject (Some (ex_function ''fn1''
             FunctionStateWaitingForResourceConfiguration Map.empty 0))))))
   \<and> fst (CreateOrUpdate ex_externals
          (ex_operator (Ok (ex_resources (Err (New ''no service'')))) (Ok ()) None)
          (ex_context None)
          (FunctionObject (Some (ex_function ''fn1''
             FunctionStateWaitingForResourceConfiguration Map.empty 0))))
       = Return (Some (Wrap (Wrap (New ''no service'') ''Failed to get function service'')
                         ''Failed to get function http port''))
   \<and> fn (snd (CreateOrUpdate ex_externals
          (ex_operator (Ok (ex_resources (Err (New ''no service'')))) (Ok ()) None)
          (ex_context None)
          (FunctionObject (Some (ex_function ''fn1''
             FunctionStateWaitingForResourceConfiguration Map.empty 0)))))
       = Some (ex_function ''fn1'' FunctionStateWaitingForResourceConfiguration Map.empty 0)"
proof -
  let ?run = "CreateOrUpdate ex_externals
          (ex_operator (Ok (ex_resources (Err (New ''no service'')))) (Ok ()) None)
          (ex_context None)
          (FunctionObject (Some (ex_function ''fn1''
             FunctionStateWaitingForResourceConfiguration Map.empty 0)))"
  have run: "?run = (fst ?run, snd ?run)"
    by simp
  have waiting: "FunctionStateInSlice
     (State (Status (ex_function ''fn1'' FunctionStateWaitingForResourceConfiguration
        Map.empty 0))) waitingStates"
    by (simp add: ex_defs state_defs)
  have waited: "(ex_context (Some 121000000000), Ok ())
                  \<in> set (readiness_waits (trace (snd ?run)))"
    by (simp add: handler_defs ex_defs state_defs waitContext_def WithDeadline_def
        readinessTimeout_def Duration_seconds_def wrap64_def Second_def)
  have service: "ResService (Err (New ''no service'')) \<in> set (trace (snd ?run))"
    by (simp add: handler_defs ex_defs state_defs)
  from service_failure_leaves_status[OF run waiting waited service] waiting waited service
  show ?thesis
    by simp
qed

end
